theory Spec2Isabelle
  imports Complex_Main "HOL-Library.AList" "HOL-Library.Sublist"
begin

section \<open>Python values: errors, strings, dictionaries\<close>

text \<open>
  The exceptions the modelled functions can raise. A function that can raise returns
  \<open>error + 'a\<close> (\<open>Inl\<close> the exception); a function that changes the filesystem returns
  \<open>error option \<times> filesystem\<close>, the filesystem as the call left it, also when it raised.
\<close>

datatype error =
    AssertionError
  | FileExistsError
  | FileNotFoundError
  | IsADirectoryError
  | NotADirectoryError
  | UnicodeDecodeError
  | ZeroDivisionError
  | KeyError
  | ValueError
  | FormatError

abbreviation NL :: char where "NL \<equiv> CHR 0x0A"
abbreviation CR :: char where "CR \<equiv> CHR 0x0D"

text \<open>
  A file opened with \<open>open(path, mode='r')\<close> is read in universal-newlines mode
  (\<open>newline=None\<close>): \<open>'\r\n'\<close> and a lone \<open>'\r'\<close> come back as \<open>'\n'\<close>.
  Writing in text mode on a POSIX system stores the characters as they are.
\<close>

fun universal_newlines :: "string \<Rightarrow> string" where
  "universal_newlines [] = []"
| "universal_newlines [c] = (if c = CR then [NL] else [c])"
| "universal_newlines (c # d # cs) =
     (if c = CR then (if d = NL then NL # universal_newlines cs
                      else NL # universal_newlines (d # cs))
      else c # universal_newlines (d # cs))"

text \<open>\<open>s.split(sep)\<close> for a separator of one character: never the empty list.\<close>

fun str_split :: "char \<Rightarrow> string \<Rightarrow> string list" where
  "str_split sep [] = [[]]"
| "str_split sep (c # cs) =
     (if c = sep then [] # str_split sep cs
      else (c # hd (str_split sep cs)) # tl (str_split sep cs))"

text \<open>\<open>f.readline()\<close>: the text up to and including the first newline.\<close>

fun readline :: "string \<Rightarrow> string" where
  "readline [] = []"
| "readline (c # cs) = (if c = NL then [NL] else c # readline cs)"

text \<open>\<open>s.replace(old, new)\<close>: every occurrence of \<open>old\<close>, scanning from the left.\<close>

function str_replace :: "string \<Rightarrow> string \<Rightarrow> string \<Rightarrow> string" where
  "str_replace old new [] = (if old = [] then new else [])"
| "str_replace old new (c # cs) =
     (if old = [] then new @ c # str_replace old new cs
      else if prefix old (c # cs)
        then new @ str_replace old new (drop (length old) (c # cs))
      else c # str_replace old new cs)"
  by pat_completeness auto
termination
  by (relation "measure (\<lambda>(old, new, s). length s)") auto

text \<open>
  A \<open>dict\<close> is an association list in insertion order with distinct keys;
  \<open>d[k] = v\<close> is \<open>AList.update k v d\<close> (in place for a key already there, appended
  otherwise) and \<open>d[k]\<close> raises \<open>KeyError\<close> for a missing key.
\<close>

definition dict_get :: "('k \<times> 'v) list \<Rightarrow> 'k \<Rightarrow> error + 'v" where
  "dict_get d k = (case map_of d k of None \<Rightarrow> Inl KeyError | Some v \<Rightarrow> Inr v)"

section \<open>Recordings, sortings and the filesystem\<close>

text \<open>
  A sorting holds, for each unit identifier, its spike train (sample indices), and may
  carry a sampling frequency. A recording has channels, a sampling frequency, its traces
  and its probe geometry.
\<close>

record sorting =
  sort_sampling_frequency :: "real option"
  sort_units :: "(int \<times> int list) list"

definition get_unit_ids :: "sorting \<Rightarrow> int list" where
  "get_unit_ids s = map fst (sort_units s)"

record recording =
  rec_num_channels :: nat
  rec_sampling_frequency :: real
  rec_traces :: "real list list"
  rec_probe :: "(int \<times> real list) list"

text \<open>The \<open>info\<close> dictionary dumped beside each raw file.\<close>

record json_info =
  sample_rate :: real
  num_chan :: nat
  dtype :: string
  frames_first :: bool

datatype content =
    Text string
  | BinaryDat "real list list"
  | ProbeFile "(int \<times> real list) list"
  | Json json_info
  | Npz sorting
  | SorterFile string

datatype node = Dir | File content

type_synonym path = "string list"
type_synonym filesystem = "path \<Rightarrow> node option"

text \<open>
  A path is the list of its components below the root; \<open>folder / name\<close> appends one
  component. Of the operating system's failures, the model has the ones that depend on
  what exists: permissions and devices are left out.
\<close>

definition path_exists :: "filesystem \<Rightarrow> path \<Rightarrow> bool" where
  "path_exists fs p = (fs p \<noteq> None)"

text \<open>Every existing path lies in existing directories.\<close>

definition wf_fs :: "filesystem \<Rightarrow> bool" where
  "wf_fs fs = (\<forall>p q. fs p \<noteq> None \<longrightarrow> strict_prefix q p \<longrightarrow> fs q = Some Dir)"

definition is_file :: "filesystem \<Rightarrow> path \<Rightarrow> bool" where
  "is_file fs p = (case fs p of Some (File _) \<Rightarrow> True | _ \<Rightarrow> False)"

text \<open>
  \<open>os.makedirs(p)\<close>: creates \<open>p\<close> and its missing ancestors; \<open>p\<close> must not exist,
  and no ancestor may be a regular file.
\<close>

definition makedirs :: "path \<Rightarrow> filesystem \<Rightarrow> error option \<times> filesystem" where
  "makedirs p fs =
     (if path_exists fs p then (Some FileExistsError, fs)
      else if list_ex (is_file fs) (prefixes p) then (Some NotADirectoryError, fs)
      else (None, (\<lambda>q. if prefix q p \<and> fs q = None then Some Dir else fs q)))"

text \<open>Opening \<open>p\<close> for writing and storing \<open>c\<close> there: the parent must be a directory.\<close>

definition write_file :: "path \<Rightarrow> content \<Rightarrow> filesystem \<Rightarrow> error option \<times> filesystem" where
  "write_file p c fs =
     (if fs p = Some Dir then (Some IsADirectoryError, fs)
      else if p = [] then (Some IsADirectoryError, fs)
      else (case fs (butlast p) of
              None \<Rightarrow> (Some FileNotFoundError, fs)
            | Some (File _) \<Rightarrow> (Some NotADirectoryError, fs)
            | Some Dir \<Rightarrow> (None, fs(p \<mapsto> File c))))"

text \<open>\<open>open(p, mode='r').read()\<close> in text mode.\<close>

definition read_text :: "filesystem \<Rightarrow> path \<Rightarrow> error + string" where
  "read_text fs p =
     (case fs p of
        None \<Rightarrow> Inl FileNotFoundError
      | Some Dir \<Rightarrow> Inl IsADirectoryError
      | Some (File (Text s)) \<Rightarrow> Inr (universal_newlines s)
      | Some (File _) \<Rightarrow> Inl UnicodeDecodeError)"

text \<open>Sequencing of two steps on the filesystem: the second runs if the first did not raise.\<close>

definition and_then ::
  "error option \<times> filesystem \<Rightarrow> (filesystem \<Rightarrow> error option \<times> filesystem)
     \<Rightarrow> error option \<times> filesystem" where
  "and_then r f = (case r of (None, fs) \<Rightarrow> f fs | (Some e, fs) \<Rightarrow> (Some e, fs))"

section \<open>groundtruthstudy.py: creating a study\<close>

text \<open>
  The writers of the extractor library, each storing one file:
  \<open>se.write_binary_dat_format\<close>, \<open>se.save_probe_file\<close>, \<open>json.dump\<close> into the opened
  file, and \<open>se.NpzSortingExtractor.write_sorting\<close>.
\<close>

definition write_binary_dat_format ::
  "recording \<Rightarrow> path \<Rightarrow> nat \<Rightarrow> filesystem \<Rightarrow> error option \<times> filesystem" where
  "write_binary_dat_format recording raw_filename chunksize fs =
     write_file raw_filename (BinaryDat (rec_traces recording)) fs"

definition save_probe_file ::
  "recording \<Rightarrow> path \<Rightarrow> filesystem \<Rightarrow> error option \<times> filesystem" where
  "save_probe_file recording prb_filename fs =
     write_file prb_filename (ProbeFile (rec_probe recording)) fs"

definition write_sorting ::
  "sorting \<Rightarrow> path \<Rightarrow> filesystem \<Rightarrow> error option \<times> filesystem" where
  "write_sorting sorting_gt npz_filename fs = write_file npz_filename (Npz sorting_gt) fs"

text \<open>The four files a study keeps for one recording, with what they hold.\<close>

definition recording_files ::
  "path \<Rightarrow> string \<Rightarrow> recording \<Rightarrow> sorting \<Rightarrow> (path \<times> content) list" where
  "recording_files study_folder rec_name recording sorting_gt =
     [(study_folder @ [''raw_files'', rec_name @ ''.raw''], BinaryDat (rec_traces recording)),
      (study_folder @ [''raw_files'', rec_name @ ''.prb''], ProbeFile (rec_probe recording)),
      (study_folder @ [''raw_files'', rec_name @ ''.json''],
         Json \<lparr>sample_rate = rec_sampling_frequency recording,
               num_chan = rec_num_channels recording,
               dtype = ''float32'', frames_first = True\<rparr>),
      (study_folder @ [''ground_truth'', rec_name @ ''.npz''], Npz sorting_gt)]"

text \<open>The body of the loop over \<open>gt_dict.items()\<close> in \<open>setup_comparison_study\<close>.\<close>

definition write_recording ::
  "path \<Rightarrow> string \<Rightarrow> recording \<Rightarrow> sorting \<Rightarrow> filesystem \<Rightarrow> error option \<times> filesystem" where
  "write_recording study_folder rec_name recording sorting_gt fs =
     (let raw_filename = study_folder @ [''raw_files'', rec_name @ ''.raw''];
          prb_filename = study_folder @ [''raw_files'', rec_name @ ''.prb''];
          json_filename = study_folder @ [''raw_files'', rec_name @ ''.json''];
          num_chan = rec_num_channels recording
      in if num_chan = 0 then (Some ZeroDivisionError, fs)
         else
           (let chunksize = 2 ^ 24 div num_chan;
                sr = rec_sampling_frequency recording;
                info = \<lparr>sample_rate = sr, num_chan = num_chan,
                         dtype = ''float32'', frames_first = True\<rparr>
            in and_then (write_binary_dat_format recording raw_filename chunksize fs) (\<lambda>fs.
               and_then (save_probe_file recording prb_filename fs) (\<lambda>fs.
               and_then (write_file json_filename (Json info) fs) (\<lambda>fs.
               write_sorting sorting_gt
                 (study_folder @ [''ground_truth'', rec_name @ ''.npz'']) fs)))))"

fun write_recordings ::
  "path \<Rightarrow> (string \<times> recording \<times> sorting) list \<Rightarrow> filesystem
     \<Rightarrow> error option \<times> filesystem" where
  "write_recordings study_folder [] fs = (None, fs)"
| "write_recordings study_folder ((rec_name, recording, sorting_gt) # rest) fs =
     and_then (write_recording study_folder rec_name recording sorting_gt fs)
       (write_recordings study_folder rest)"

text \<open>The text written to \<open>names.txt\<close>: each key of \<open>gt_dict\<close> followed by a newline.\<close>

definition names_text :: "(string \<times> recording \<times> sorting) list \<Rightarrow> string" where
  "names_text gt_dict = concat (map (\<lambda>rec_name. rec_name @ [NL]) (map fst gt_dict))"

definition setup_comparison_study ::
  "path \<Rightarrow> (string \<times> recording \<times> sorting) list \<Rightarrow> filesystem
     \<Rightarrow> error option \<times> filesystem" where
  "setup_comparison_study study_folder gt_dict fs =
     (if path_exists fs study_folder then (Some AssertionError, fs)
      else
        and_then (makedirs study_folder fs) (\<lambda>fs.
        and_then (makedirs (study_folder @ [''raw_files'']) fs) (\<lambda>fs.
        and_then (makedirs (study_folder @ [''ground_truth'']) fs) (\<lambda>fs.
        and_then (write_recordings study_folder gt_dict fs) (\<lambda>fs.
        write_file (study_folder @ [''names.txt'']) (Text (names_text gt_dict)) fs)))))"

definition get_rec_names :: "filesystem \<Rightarrow> path \<Rightarrow> error + string list" where
  "get_rec_names fs study_folder =
     (case read_text fs (study_folder @ [''names.txt'']) of
        Inl e \<Rightarrow> Inl e
      | Inr txt \<Rightarrow> Inr (str_split NL (butlast txt)))"

section \<open>groundtruthstudy.py: reading a study\<close>

text \<open>
  The loaders of the extractor library and \<open>json.load\<close>: each needs its file, in its
  format. \<open>se.load_probe_file\<close> sets the probe geometry on the recording it is given.
\<close>

definition json_load :: "filesystem \<Rightarrow> path \<Rightarrow> error + json_info" where
  "json_load fs p =
     (case fs p of
        None \<Rightarrow> Inl FileNotFoundError
      | Some Dir \<Rightarrow> Inl IsADirectoryError
      | Some (File (Json info)) \<Rightarrow> Inr info
      | Some (File _) \<Rightarrow> Inl FormatError)"

definition BinDatRecordingExtractor ::
  "filesystem \<Rightarrow> path \<Rightarrow> real \<Rightarrow> nat \<Rightarrow> string \<Rightarrow> bool \<Rightarrow> error + recording" where
  "BinDatRecordingExtractor fs p sr n dt ff =
     (case fs p of
        None \<Rightarrow> Inl FileNotFoundError
      | Some Dir \<Rightarrow> Inl IsADirectoryError
      | Some (File (BinaryDat traces)) \<Rightarrow>
          Inr \<lparr>rec_num_channels = n, rec_sampling_frequency = sr,
               rec_traces = traces, rec_probe = []\<rparr>
      | Some (File _) \<Rightarrow> Inl FormatError)"

definition load_probe_file :: "filesystem \<Rightarrow> recording \<Rightarrow> path \<Rightarrow> error + recording" where
  "load_probe_file fs rec p =
     (case fs p of
        None \<Rightarrow> Inl FileNotFoundError
      | Some Dir \<Rightarrow> Inl IsADirectoryError
      | Some (File (ProbeFile probe)) \<Rightarrow> Inr (rec\<lparr>rec_probe := probe\<rparr>)
      | Some (File _) \<Rightarrow> Inl FormatError)"

definition NpzSortingExtractor :: "filesystem \<Rightarrow> path \<Rightarrow> error + sorting" where
  "NpzSortingExtractor fs p =
     (case fs p of
        None \<Rightarrow> Inl FileNotFoundError
      | Some Dir \<Rightarrow> Inl IsADirectoryError
      | Some (File (Npz sorting)) \<Rightarrow> Inr sorting
      | Some (File _) \<Rightarrow> Inl FormatError)"

text \<open>The body of the loop of \<open>get_recordings\<close>, then the loop with its dictionary.\<close>

definition get_recording :: "filesystem \<Rightarrow> path \<Rightarrow> string \<Rightarrow> error + recording" where
  "get_recording fs study_folder rec_name =
     (let raw_filename = study_folder @ [''raw_files'', rec_name @ ''.raw''];
          prb_filename = study_folder @ [''raw_files'', rec_name @ ''.prb''];
          json_filename = study_folder @ [''raw_files'', rec_name @ ''.json'']
      in case json_load fs json_filename of
           Inl e \<Rightarrow> Inl e
         | Inr info \<Rightarrow>
             (case BinDatRecordingExtractor fs raw_filename (sample_rate info) (num_chan info)
                     (dtype info) (frames_first info) of
                Inl e \<Rightarrow> Inl e
              | Inr rec \<Rightarrow> load_probe_file fs rec prb_filename))"

fun get_recordings_loop ::
  "filesystem \<Rightarrow> path \<Rightarrow> string list \<Rightarrow> (string \<times> recording) list
     \<Rightarrow> error + (string \<times> recording) list" where
  "get_recordings_loop fs study_folder [] recording_dict = Inr recording_dict"
| "get_recordings_loop fs study_folder (rec_name # rest) recording_dict =
     (case get_recording fs study_folder rec_name of
        Inl e \<Rightarrow> Inl e
      | Inr rec \<Rightarrow>
          get_recordings_loop fs study_folder rest (AList.update rec_name rec recording_dict))"

definition get_recordings :: "filesystem \<Rightarrow> path \<Rightarrow> error + (string \<times> recording) list" where
  "get_recordings fs study_folder =
     (case get_rec_names fs study_folder of
        Inl e \<Rightarrow> Inl e
      | Inr rec_names \<Rightarrow> get_recordings_loop fs study_folder rec_names [])"

fun get_ground_truths_loop ::
  "filesystem \<Rightarrow> path \<Rightarrow> string list \<Rightarrow> (string \<times> sorting) list
     \<Rightarrow> error + (string \<times> sorting) list" where
  "get_ground_truths_loop fs study_folder [] ground_truths = Inr ground_truths"
| "get_ground_truths_loop fs study_folder (rec_name # rest) ground_truths =
     (case NpzSortingExtractor fs (study_folder @ [''ground_truth'', rec_name @ ''.npz'']) of
        Inl e \<Rightarrow> Inl e
      | Inr sorting \<Rightarrow>
          get_ground_truths_loop fs study_folder rest
            (AList.update rec_name sorting ground_truths))"

definition get_ground_truths :: "filesystem \<Rightarrow> path \<Rightarrow> error + (string \<times> sorting) list" where
  "get_ground_truths fs study_folder =
     (case get_rec_names fs study_folder of
        Inl e \<Rightarrow> Inl e
      | Inr rec_names \<Rightarrow> get_ground_truths_loop fs study_folder rec_names [])"

section \<open>The parts of the package that the study calls\<close>

text \<open>
  A comparison of a tested sorting against a ground truth: the two sortings and, for
  each ground-truth unit, the tested unit matched to it, or none.
\<close>

record comparison =
  cmp_gt_sorting :: sorting
  cmp_tested_sorting :: sorting
  cmp_best_match :: "(int \<times> int option) list"

type_synonym kargs = "(string \<times> real) list"
type_synonym sorter_params = "(string \<times> (string \<times> string) list) list"

text \<open>The arguments \<open>mode\<close>, \<open>engine\<close> and \<open>engine_kargs\<close> of a run.\<close>

record run_options =
  run_mode :: string
  run_engine :: string
  run_engine_kargs :: "(string \<times> string) list"

text \<open>
  \<open>spiketoolkit.sorters\<close> and \<open>groundtruthcomparison\<close> are not among the sources, and
  \<open>float\<close> is Python's: the study functions take them as parameters.
  \<open>loop_over_folders\<close> is a generator: it gives the triples it yields and the
  exception that ended it, if one did. \<open>run_sorter\<close> gives the files one sorter
  leaves in its output folder.
\<close>

record env =
  loop_over_folders :: "filesystem \<Rightarrow> path \<Rightarrow> (string \<times> string \<times> path) list \<times> error option"
  collect_sorting_outputs :: "filesystem \<Rightarrow> path \<Rightarrow> error + ((string \<times> string) \<times> sorting) list"
  run_sorter :: "string \<Rightarrow> recording \<Rightarrow> sorter_params \<Rightarrow> run_options
                  \<Rightarrow> error + (string \<times> content) list"
  compare_sorter_to_ground_truth :: "sorting \<Rightarrow> sorting \<Rightarrow> comparison"
  perf_keys :: "string list"
  get_performance :: "comparison \<Rightarrow> string \<Rightarrow> (string \<times> real) list"
  count_well_detected_units :: "comparison \<Rightarrow> kargs \<Rightarrow> nat"
  count_redundant_units :: "comparison \<Rightarrow> nat"
  count_false_positive_units :: "comparison \<Rightarrow> nat"
  count_bad_units :: "comparison \<Rightarrow> nat"
  py_float :: "string \<Rightarrow> real option"

section \<open>groundtruthstudy.py: running the sorters\<close>

text \<open>
  Storing the files of one sorter in its output folder, which is created with its
  missing ancestors.
\<close>

definition store_output :: "path \<Rightarrow> (string \<times> content) list \<Rightarrow> filesystem \<Rightarrow> filesystem" where
  "store_output output_folder files fs =
     fold (\<lambda>(name, c) fs. fs(output_folder @ [name] \<mapsto> File c)) files
       (\<lambda>q. if prefix q output_folder \<and> fs q = None then Some Dir else fs q)"

text \<open>
  Modelled from the spec: the loop of \<open>run_sorters\<close> (of \<open>spiketoolkit.sorters\<close>,
  which is not among the sources) over the sorters, for one recording. The spec has the
  sorter outputs persisted in folders keyed by recording name and sorter name: the files
  of each sorter are stored in \<open>working_folder / rec_name / sorter_name\<close>. An
  exception of a sorter ends the run.
\<close>

fun run_sorters_on ::
  "env \<Rightarrow> path \<Rightarrow> sorter_params \<Rightarrow> run_options \<Rightarrow> string \<Rightarrow> recording \<Rightarrow> string list
     \<Rightarrow> filesystem \<Rightarrow> error option \<times> filesystem" where
  "run_sorters_on env working_folder sorter_params opts rec_name recording [] fs = (None, fs)"
| "run_sorters_on env working_folder sorter_params opts rec_name recording
       (sorter_name # rest) fs =
     (case run_sorter env sorter_name recording sorter_params opts of
        Inl e \<Rightarrow> (Some e, fs)
      | Inr files \<Rightarrow>
          run_sorters_on env working_folder sorter_params opts rec_name recording rest
            (store_output (working_folder @ [rec_name, sorter_name]) files fs))"

text \<open>
  Modelled from the spec: \<open>run_sorters\<close> of \<open>spiketoolkit.sorters\<close>, which is not
  among the sources. Every sorter of the list runs on every recording of the dictionary,
  and its output is persisted under the working folder, keyed by recording name and
  sorter name.
\<close>

fun run_sorters ::
  "env \<Rightarrow> string list \<Rightarrow> (string \<times> recording) list \<Rightarrow> path \<Rightarrow> sorter_params
     \<Rightarrow> run_options \<Rightarrow> filesystem \<Rightarrow> error option \<times> filesystem" where
  "run_sorters env sorter_list [] working_folder sorter_params opts fs = (None, fs)"
| "run_sorters env sorter_list ((rec_name, recording) # rest) working_folder
       sorter_params opts fs =
     and_then
       (run_sorters_on env working_folder sorter_params opts rec_name recording sorter_list fs)
       (run_sorters env sorter_list rest working_folder sorter_params opts)"

definition run_study_sorters ::
  "env \<Rightarrow> path \<Rightarrow> string list \<Rightarrow> sorter_params \<Rightarrow> string \<Rightarrow> string
     \<Rightarrow> (string \<times> string) list \<Rightarrow> filesystem \<Rightarrow> error option \<times> filesystem" where
  "run_study_sorters env study_folder sorter_list sorter_params mode engine engine_kargs fs =
     (let sorter_outputs = study_folder @ [''sorter_outputs'']
      in case get_recordings fs study_folder of
           Inl e \<Rightarrow> (Some e, fs)
         | Inr recording_dict \<Rightarrow>
             run_sorters env sorter_list recording_dict sorter_outputs sorter_params
               \<lparr>run_mode = mode, run_engine = engine, run_engine_kargs = engine_kargs\<rparr> fs)"

section \<open>groundtruthstudy.py: collecting run times and comparisons\<close>

text \<open>The body of the \<open>with\<close> block of \<open>collect_run_times\<close>.\<close>

definition read_run_time :: "env \<Rightarrow> filesystem \<Rightarrow> path \<Rightarrow> error + real" where
  "read_run_time env fs output_folder =
     (case read_text fs (output_folder @ [''run_log.txt'']) of
        Inl e \<Rightarrow> Inl e
      | Inr txt \<Rightarrow>
          (case py_float env (str_replace ''run_time:'' [] (readline txt)) of
             None \<Rightarrow> Inl ValueError
           | Some run_time \<Rightarrow> Inr run_time))"

fun collect_run_times_loop ::
  "env \<Rightarrow> filesystem \<Rightarrow> (string \<times> string \<times> path) list \<Rightarrow> (string \<times> string \<times> real) list
     \<Rightarrow> error + (string \<times> string \<times> real) list" where
  "collect_run_times_loop env fs [] run_times = Inr run_times"
| "collect_run_times_loop env fs ((rec_name, sorter_name, output_folder) # rest) run_times =
     (if path_exists fs (output_folder @ [''run_log.txt''])
      then (case read_run_time env fs output_folder of
              Inl e \<Rightarrow> Inl e
            | Inr run_time \<Rightarrow>
                collect_run_times_loop env fs rest
                  (run_times @ [(rec_name, sorter_name, run_time)]))
      else collect_run_times_loop env fs rest run_times)"

definition collect_run_times ::
  "env \<Rightarrow> filesystem \<Rightarrow> path \<Rightarrow> error + (string \<times> string \<times> real) list" where
  "collect_run_times env fs study_folder =
     (let sorter_outputs = study_folder @ [''sorter_outputs''];
          (folders, ended) = loop_over_folders env fs sorter_outputs
      in case collect_run_times_loop env fs folders [] of
           Inl e \<Rightarrow> Inl e
         | Inr run_times \<Rightarrow> (case ended of Some e \<Rightarrow> Inl e | None \<Rightarrow> Inr run_times))"

fun comparisons_loop ::
  "env \<Rightarrow> (string \<times> sorting) list \<Rightarrow> ((string \<times> string) \<times> sorting) list
     \<Rightarrow> ((string \<times> string) \<times> comparison) list
     \<Rightarrow> error + ((string \<times> string) \<times> comparison) list" where
  "comparisons_loop env ground_truths [] comparisons = Inr comparisons"
| "comparisons_loop env ground_truths (((rec_name, sorter_name), sorting) # rest) comparisons =
     (case dict_get ground_truths rec_name of
        Inl e \<Rightarrow> Inl e
      | Inr gt_sorting \<Rightarrow>
          (let sc = compare_sorter_to_ground_truth env gt_sorting sorting
           in comparisons_loop env ground_truths rest
                (AList.update (rec_name, sorter_name) sc comparisons)))"

definition aggregate_sorting_comparison ::
  "env \<Rightarrow> filesystem \<Rightarrow> path \<Rightarrow> bool \<Rightarrow> kargs
     \<Rightarrow> error + ((string \<times> string) \<times> comparison) list" where
  "aggregate_sorting_comparison env fs study_folder exhaustive_gt karg_thresh =
     (let sorter_outputs = study_folder @ [''sorter_outputs'']
      in case get_ground_truths fs study_folder of
           Inl e \<Rightarrow> Inl e
         | Inr ground_truths \<Rightarrow>
             (case collect_sorting_outputs env fs sorter_outputs of
                Inl e \<Rightarrow> Inl e
              | Inr results \<Rightarrow> comparisons_loop env ground_truths results []))"

section \<open>groundtruthstudy.py: the performance tables\<close>

text \<open>
  A pandas \<open>DataFrame\<close> indexed by (rec_name, sorter_name): its columns and its rows,
  each row under its index entry. A cell the frame was never given reads as \<open>NaN\<close>.
  Assigning through \<open>.loc\<close> at an index entry the frame does not have appends a row
  for it (setting with enlargement).
\<close>

datatype cell = NaN | PyNone | Float real | Count nat

record dataframe =
  df_columns :: "string list"
  df_rows :: "((string \<times> string) \<times> (string \<times> cell) list) list"

definition df_index :: "dataframe \<Rightarrow> (string \<times> string) list" where
  "df_index df = map fst (df_rows df)"

text \<open>\<open>pd.DataFrame(rt, columns=['rec_name', 'sorter_name', 'run_time'])\<close> followed by
  \<open>set_index(['rec_name', 'sorter_name'])\<close>.\<close>

definition run_times_frame :: "(string \<times> string \<times> real) list \<Rightarrow> dataframe" where
  "run_times_frame rt =
     \<lparr>df_columns = [''run_time''],
      df_rows = map (\<lambda>(rec_name, sorter_name, run_time).
                  ((rec_name, sorter_name), [(''run_time'', Float run_time)])) rt\<rparr>"

text \<open>\<open>pd.DataFrame(index=index, columns=columns)\<close>.\<close>

definition new_frame :: "(string \<times> string) list \<Rightarrow> string list \<Rightarrow> dataframe" where
  "new_frame index columns =
     \<lparr>df_columns = columns,
      df_rows = map (\<lambda>k. (k, map (\<lambda>c. (c, NaN)) columns)) index\<rparr>"

text \<open>\<open>df[col] = v\<close>.\<close>

definition set_column :: "string \<Rightarrow> cell \<Rightarrow> dataframe \<Rightarrow> dataframe" where
  "set_column col v df =
     \<lparr>df_columns = (if col \<in> set (df_columns df) then df_columns df else df_columns df @ [col]),
      df_rows = map (\<lambda>(k, row). (k, AList.update col v row)) (df_rows df)\<rparr>"

text \<open>\<open>df.loc[key, col] = v\<close>.\<close>

definition loc_set :: "string \<times> string \<Rightarrow> string \<Rightarrow> cell \<Rightarrow> dataframe \<Rightarrow> dataframe" where
  "loc_set key col v df =
     \<lparr>df_columns = (if col \<in> set (df_columns df) then df_columns df else df_columns df @ [col]),
      df_rows =
        (if key \<in> set (df_index df)
         then map (\<lambda>(k, row). if k = key then (k, AList.update col v row) else (k, row))
                (df_rows df)
         else df_rows df @
                [(key, AList.update col v (map (\<lambda>c. (c, NaN)) (df_columns df)))])\<rparr>"

text \<open>\<open>df.loc[key, :] = series\<close>: the row takes the values of the series at the frame's
  columns.\<close>

definition loc_set_row ::
  "string \<times> string \<Rightarrow> (string \<times> real) list \<Rightarrow> dataframe \<Rightarrow> dataframe" where
  "loc_set_row key series df =
     (let row = map (\<lambda>c. (c, case map_of series c of None \<Rightarrow> NaN | Some x \<Rightarrow> Float x))
                  (df_columns df)
      in \<lparr>df_columns = df_columns df,
          df_rows =
            (if key \<in> set (df_index df)
             then map (\<lambda>(k, r). if k = key then (k, row) else (k, r)) (df_rows df)
             else df_rows df @ [(key, row)])\<rparr>)"

text \<open>
  The loop over \<open>comparisons.items()\<close>. The three frames it assigns to are the objects
  already stored in \<open>out_dataframes\<close>, so the returned dictionary holds them as the loop
  left them.
\<close>

fun performances_loop ::
  "env \<Rightarrow> bool \<Rightarrow> kargs \<Rightarrow> (string \<times> sorting) list \<Rightarrow> ((string \<times> string) \<times> sorting) list
     \<Rightarrow> ((string \<times> string) \<times> comparison) list \<Rightarrow> dataframe \<times> dataframe \<times> dataframe
     \<Rightarrow> error + dataframe \<times> dataframe \<times> dataframe" where
  "performances_loop env exhaustive_gt karg_thresh ground_truths results [] frames = Inr frames"
| "performances_loop env exhaustive_gt karg_thresh ground_truths results
       (((rec_name, sorter_name), cmp) # rest)
       (perf_pooled_with_sum, perf_pooled_with_average, count_units) =
     (case dict_get ground_truths rec_name of
        Inl e \<Rightarrow> Inl e
      | Inr gt_sorting \<Rightarrow>
     (case dict_get results (rec_name, sorter_name) of
        Inl e \<Rightarrow> Inl e
      | Inr sorting \<Rightarrow>
          (let key = (rec_name, sorter_name);
               perf_pooled_with_sum =
                 loc_set_row key (get_performance env cmp ''pooled_with_sum'')
                   perf_pooled_with_sum;
               perf_pooled_with_average =
                 loc_set_row key (get_performance env cmp ''pooled_with_average'')
                   perf_pooled_with_average;
               count_units =
                 loc_set key ''num_gt'' (Count (length (get_unit_ids gt_sorting))) count_units;
               count_units =
                 loc_set key ''num_sorter'' (Count (length (get_unit_ids sorting))) count_units;
               count_units =
                 loc_set key ''num_well_detected''
                   (Count (count_well_detected_units env cmp karg_thresh)) count_units;
               count_units =
                 loc_set key ''num_redundant'' (Count (count_redundant_units env cmp))
                   count_units;
               count_units =
                 (if exhaustive_gt
                  then loc_set key ''num_bad'' (Count (count_bad_units env cmp))
                         (loc_set key ''num_false_positive''
                            (Count (count_false_positive_units env cmp)) count_units)
                  else count_units)
           in performances_loop env exhaustive_gt karg_thresh ground_truths results rest
                (perf_pooled_with_sum, perf_pooled_with_average, count_units))))"

definition aggregate_performances_table ::
  "env \<Rightarrow> filesystem \<Rightarrow> path \<Rightarrow> bool \<Rightarrow> kargs \<Rightarrow> error + (string \<times> dataframe) list" where
  "aggregate_performances_table env fs study_folder exhaustive_gt karg_thresh =
     (let sorter_outputs = study_folder @ [''sorter_outputs'']
      in case aggregate_sorting_comparison env fs study_folder exhaustive_gt karg_thresh of
           Inl e \<Rightarrow> Inl e
         | Inr comparisons \<Rightarrow>
      (case get_ground_truths fs study_folder of
           Inl e \<Rightarrow> Inl e
         | Inr ground_truths \<Rightarrow>
      (case collect_sorting_outputs env fs sorter_outputs of
           Inl e \<Rightarrow> Inl e
         | Inr results \<Rightarrow>
      (case collect_run_times env fs study_folder of
           Inl e \<Rightarrow> Inl e
         | Inr rt \<Rightarrow>
          (let run_times = run_times_frame rt;
               perf_pooled_with_sum = new_frame (df_index run_times) (perf_keys env);
               perf_pooled_with_average = new_frame (df_index run_times) (perf_keys env);
               count_units = new_frame (df_index run_times)
                  [''num_gt'', ''num_sorter'', ''num_well_detected'', ''num_redundant''];
               count_units =
                 (if exhaustive_gt
                  then set_column ''num_bad'' PyNone
                         (set_column ''num_false_positive'' PyNone count_units)
                  else count_units)
           in case performances_loop env exhaustive_gt karg_thresh ground_truths results
                     comparisons (perf_pooled_with_sum, perf_pooled_with_average, count_units) of
                Inl e \<Rightarrow> Inl e
              | Inr (perf_pooled_with_sum, perf_pooled_with_average, count_units) \<Rightarrow>
                  Inr [(''run_times'', run_times),
                       (''perf_pooled_with_sum'', perf_pooled_with_sum),
                       (''perf_pooled_with_average'', perf_pooled_with_average),
                       (''count_units'', count_units)])))))"

section \<open>threshold_metrics.py: thresholding on a metric\<close>

text \<open>
  The metric scope dictionary and the \<open>MetricData\<close> object built from it. The metric
  classes of \<open>spiketoolkit.validation\<close> are not among the sources: their
  \<open>threshold_metric\<close> methods and \<open>update_param_dicts\<close> are parameters.
\<close>

record metric_scope_params =
  unit_ids :: "int list option"
  epoch_tuples :: "(real \<times> real) list option"
  epoch_names :: "string list option"

record metric_data =
  md_sorting :: sorting
  md_unit_ids :: "int list option"
  md_epoch_tuples :: "(real \<times> real) list option"
  md_epoch_names :: "string list option"

record validation =
  update_param_dicts :: "metric_scope_params \<Rightarrow> metric_scope_params"
  num_spikes_threshold_metric ::
    "metric_data \<Rightarrow> real \<Rightarrow> string \<Rightarrow> int option \<Rightarrow> bool \<Rightarrow> sorting"
  firing_rate_threshold_metric ::
    "metric_data \<Rightarrow> real \<Rightarrow> string \<Rightarrow> int option \<Rightarrow> bool \<Rightarrow> sorting"
  presence_ratio_threshold_metric ::
    "metric_data \<Rightarrow> real \<Rightarrow> string \<Rightarrow> int option \<Rightarrow> bool \<Rightarrow> sorting"
  isi_violation_threshold_metric ::
    "metric_data \<Rightarrow> real \<Rightarrow> string \<Rightarrow> int option \<Rightarrow> real \<Rightarrow> real \<Rightarrow> bool \<Rightarrow> sorting"

definition threshold_num_spikes ::
  "validation \<Rightarrow> sorting \<Rightarrow> real \<Rightarrow> string \<Rightarrow> int option \<Rightarrow> real option
     \<Rightarrow> metric_scope_params \<Rightarrow> bool \<Rightarrow> error + sorting" where
  "threshold_num_spikes v sorting threshold threshold_sign epoch sampling_frequency
       metric_scope_params save_as_property =
     (if sampling_frequency = None \<and> sort_sampling_frequency sorting = None
      then Inl ValueError
      else
        (let sampling_frequency =
               (if sampling_frequency = None then sort_sampling_frequency sorting
                else sampling_frequency);
             ms_dict = update_param_dicts v metric_scope_params;
             ms_dict = (if unit_ids ms_dict = None
                        then ms_dict\<lparr>unit_ids := Some (get_unit_ids sorting)\<rparr> else ms_dict);
             md = \<lparr>md_sorting = sorting, md_unit_ids = unit_ids ms_dict,
                   md_epoch_tuples = epoch_tuples ms_dict,
                   md_epoch_names = epoch_names ms_dict\<rparr>;
             threshold_sorting =
               num_spikes_threshold_metric v md threshold threshold_sign epoch save_as_property
         in Inr threshold_sorting))"

definition threshold_firing_rates ::
  "validation \<Rightarrow> sorting \<Rightarrow> real \<Rightarrow> string \<Rightarrow> int option \<Rightarrow> real option
     \<Rightarrow> metric_scope_params \<Rightarrow> bool \<Rightarrow> error + sorting" where
  "threshold_firing_rates v sorting threshold threshold_sign epoch sampling_frequency
       metric_scope_params save_as_property =
     (if sampling_frequency = None \<and> sort_sampling_frequency sorting = None
      then Inl ValueError
      else
        (let sampling_frequency =
               (if sampling_frequency = None then sort_sampling_frequency sorting
                else sampling_frequency);
             ms_dict = update_param_dicts v metric_scope_params;
             ms_dict = (if unit_ids ms_dict = None
                        then ms_dict\<lparr>unit_ids := Some (get_unit_ids sorting)\<rparr> else ms_dict);
             md = \<lparr>md_sorting = sorting, md_unit_ids = unit_ids ms_dict,
                   md_epoch_tuples = epoch_tuples ms_dict,
                   md_epoch_names = epoch_names ms_dict\<rparr>;
             threshold_sorting =
               firing_rate_threshold_metric v md threshold threshold_sign epoch save_as_property
         in Inr threshold_sorting))"

definition threshold_presence_ratios ::
  "validation \<Rightarrow> sorting \<Rightarrow> real \<Rightarrow> string \<Rightarrow> int option \<Rightarrow> real option
     \<Rightarrow> metric_scope_params \<Rightarrow> bool \<Rightarrow> error + sorting" where
  "threshold_presence_ratios v sorting threshold threshold_sign epoch sampling_frequency
       metric_scope_params save_as_property =
     (if sampling_frequency = None \<and> sort_sampling_frequency sorting = None
      then Inl ValueError
      else
        (let sampling_frequency =
               (if sampling_frequency = None then sort_sampling_frequency sorting
                else sampling_frequency);
             ms_dict = update_param_dicts v metric_scope_params;
             ms_dict = (if unit_ids ms_dict = None
                        then ms_dict\<lparr>unit_ids := Some (get_unit_ids sorting)\<rparr> else ms_dict);
             md = \<lparr>md_sorting = sorting, md_unit_ids = unit_ids ms_dict,
                   md_epoch_tuples = epoch_tuples ms_dict,
                   md_epoch_names = epoch_names ms_dict\<rparr>;
             threshold_sorting =
               presence_ratio_threshold_metric v md threshold threshold_sign epoch
                 save_as_property
         in Inr threshold_sorting))"

definition threshold_isi_violations ::
  "validation \<Rightarrow> sorting \<Rightarrow> real \<Rightarrow> string \<Rightarrow> int option \<Rightarrow> real \<Rightarrow> real \<Rightarrow> real option
     \<Rightarrow> metric_scope_params \<Rightarrow> bool \<Rightarrow> error + sorting" where
  "threshold_isi_violations v sorting threshold threshold_sign epoch isi_threshold min_isi
       sampling_frequency metric_scope_params save_as_property =
     (if sampling_frequency = None \<and> sort_sampling_frequency sorting = None
      then Inl ValueError
      else
        (let sampling_frequency =
               (if sampling_frequency = None then sort_sampling_frequency sorting
                else sampling_frequency);
             ms_dict = update_param_dicts v metric_scope_params;
             ms_dict = (if unit_ids ms_dict = None
                        then ms_dict\<lparr>unit_ids := Some (get_unit_ids sorting)\<rparr> else ms_dict);
             md = \<lparr>md_sorting = sorting, md_unit_ids = unit_ids ms_dict,
                   md_epoch_tuples = epoch_tuples ms_dict,
                   md_epoch_names = epoch_names ms_dict\<rparr>;
             threshold_sorting =
               isi_violation_threshold_metric v md threshold threshold_sign epoch
                 isi_threshold min_isi save_as_property
         in Inr threshold_sorting))"

text \<open>The \<open>MetricData\<close> each of the four functions hands to its metric.\<close>

definition scoped_metric_data :: "validation \<Rightarrow> sorting \<Rightarrow> metric_scope_params \<Rightarrow> metric_data" where
  "scoped_metric_data v sorting metric_scope_params =
     (let ms_dict = update_param_dicts v metric_scope_params
      in \<lparr>md_sorting = sorting,
          md_unit_ids = (case unit_ids ms_dict of
                           None \<Rightarrow> Some (get_unit_ids sorting)
                         | Some ids \<Rightarrow> Some ids),
          md_epoch_tuples = epoch_tuples ms_dict,
          md_epoch_names = epoch_names ms_dict\<rparr>)"

section \<open>Notions used to state the properties\<close>

text \<open>
  The filesystem after one call of a study function, whether it returned or raised.
  \<open>collect_run_times\<close>, \<open>aggregate_sorting_comparison\<close> and
  \<open>aggregate_performances_table\<close> test for existence, open files for reading and call
  the loaders and collectors: they are functions of the filesystem, and a call leaves
  it as it is. \<open>run_study_sorters\<close> hands it to \<open>run_sorters\<close>.
\<close>

datatype study_call =
    Run_study_sorters "string list" sorter_params string string "(string \<times> string) list"
  | Collect_run_times
  | Aggregate_sorting_comparison bool kargs
  | Aggregate_performances_table bool kargs

fun after_call :: "env \<Rightarrow> path \<Rightarrow> study_call \<Rightarrow> filesystem \<Rightarrow> filesystem" where
  "after_call env study_folder
       (Run_study_sorters sorter_list sorter_params mode engine engine_kargs) fs =
     snd (run_study_sorters env study_folder sorter_list sorter_params mode engine
            engine_kargs fs)"
| "after_call env study_folder Collect_run_times fs =
     (case collect_run_times env fs study_folder of Inl _ \<Rightarrow> fs | Inr _ \<Rightarrow> fs)"
| "after_call env study_folder (Aggregate_sorting_comparison exhaustive_gt karg_thresh) fs =
     (case aggregate_sorting_comparison env fs study_folder exhaustive_gt karg_thresh of
        Inl _ \<Rightarrow> fs | Inr _ \<Rightarrow> fs)"
| "after_call env study_folder (Aggregate_performances_table exhaustive_gt karg_thresh) fs =
     (case aggregate_performances_table env fs study_folder exhaustive_gt karg_thresh of
        Inl _ \<Rightarrow> fs | Inr _ \<Rightarrow> fs)"

definition after_calls :: "env \<Rightarrow> path \<Rightarrow> study_call list \<Rightarrow> filesystem \<Rightarrow> filesystem" where
  "after_calls env study_folder calls fs = fold (after_call env study_folder) calls fs"

text \<open>
  The state of a study folder while \<open>setup_comparison_study\<close> fills it: the folder
  and its two subfolders are directories, \<open>names.txt\<close> is not written yet, and nothing
  directly inside the subfolders is a directory.
\<close>

definition study_inv :: "path \<Rightarrow> filesystem \<Rightarrow> bool" where
  "study_inv sf fs \<longleftrightarrow>
     fs sf = Some Dir \<and> fs (sf @ [''raw_files'']) = Some Dir \<and>
     fs (sf @ [''ground_truth'']) = Some Dir \<and>
     fs (sf @ [''names.txt'']) = None \<and>
     (\<forall>n. fs (sf @ [''raw_files'', n]) \<noteq> Some Dir) \<and>
     (\<forall>n. fs (sf @ [''ground_truth'', n]) \<noteq> Some Dir)"

text \<open>The filesystem once the listed files are stored, and once every recording is.\<close>

definition store_files :: "(path \<times> content) list \<Rightarrow> filesystem \<Rightarrow> filesystem" where
  "store_files fl fs = fold (\<lambda>(p, c) fs. fs(p \<mapsto> File c)) fl fs"

fun store_all ::
  "path \<Rightarrow> (string \<times> recording \<times> sorting) list \<Rightarrow> filesystem \<Rightarrow> filesystem" where
  "store_all sf [] fs = fs"
| "store_all sf ((n, r, g) # rest) fs =
     store_all sf rest (store_files (recording_files sf n r g) fs)"

text \<open>The output folders that hold a run log, and the triple a run log gives.\<close>

definition has_run_log :: "filesystem \<Rightarrow> string \<times> string \<times> path \<Rightarrow> bool" where
  "has_run_log fs = (\<lambda>(rec_name, sorter_name, output_folder).
     path_exists fs (output_folder @ [''run_log.txt'']))"

definition run_time_of ::
  "env \<Rightarrow> filesystem \<Rightarrow> string \<times> string \<times> path \<Rightarrow> string \<times> string \<times> real \<Rightarrow> bool" where
  "run_time_of env fs = (\<lambda>(rec_name, sorter_name, output_folder) (r, s, run_time).
     r = rec_name \<and> s = sorter_name \<and> read_run_time env fs output_folder = Inr run_time)"

text \<open>Removing a leading \<open>pre\<close> from a string, and nothing else.\<close>

definition remove_prefix :: "string \<Rightarrow> string \<Rightarrow> string" where
  "remove_prefix pre s = (if prefix pre s then drop (length pre) s else s)"



text \<open>The index of a frame after assignments through \<open>.loc\<close> at the given keys.\<close>

definition enlarge_index ::
  "(string \<times> string) list \<Rightarrow> (string \<times> string) list \<Rightarrow> (string \<times> string) list" where
  "enlarge_index index keys =
     fold (\<lambda>k idx. if k \<in> set idx then idx else idx @ [k]) keys index"

text \<open>The index after one assignment, and the frame \<open>count_units\<close> starts as.\<close>

definition enlarge1 ::
  "(string \<times> string) \<Rightarrow> (string \<times> string) list \<Rightarrow> (string \<times> string) list" where
  "enlarge1 k idx = (if k \<in> set idx then idx else idx @ [k])"

definition count_units_frame :: "bool \<Rightarrow> (string \<times> string) list \<Rightarrow> dataframe" where
  "count_units_frame ex idx =
     (if ex
      then set_column ''num_bad'' PyNone
             (set_column ''num_false_positive'' PyNone
                (new_frame idx [''num_gt'', ''num_sorter'', ''num_well_detected'', ''num_redundant'']))
      else new_frame idx [''num_gt'', ''num_sorter'', ''num_well_detected'', ''num_redundant''])"

text \<open>The columns the loop assigns to are columns of the frame.\<close>

definition count_columns_ok :: "bool \<Rightarrow> dataframe \<Rightarrow> bool" where
  "count_columns_ok exhaustive_gt df \<longleftrightarrow>
     {''num_gt'', ''num_sorter'', ''num_well_detected'', ''num_redundant''} \<subseteq> set (df_columns df) \<and>
     (exhaustive_gt \<longrightarrow> {''num_false_positive'', ''num_bad''} \<subseteq> set (df_columns df))"

text \<open>
  Frames on the filesystem: every proper ancestor of a folder exists; nothing outside a
  folder has changed; nothing that existed has gone.
\<close>

definition ancestors_exist :: "path \<Rightarrow> filesystem \<Rightarrow> bool" where
  "ancestors_exist base fs \<longleftrightarrow> (\<forall>q. strict_prefix q base \<longrightarrow> fs q \<noteq> None)"

definition kept_outside :: "path \<Rightarrow> filesystem \<Rightarrow> filesystem \<Rightarrow> bool" where
  "kept_outside base fs fs' \<longleftrightarrow> (\<forall>p. \<not> prefix base p \<longrightarrow> fs' p = fs p)"

definition grows :: "filesystem \<Rightarrow> filesystem \<Rightarrow> bool" where
  "grows fs fs' \<longleftrightarrow> (\<forall>q. fs q \<noteq> None \<longrightarrow> fs' q \<noteq> None)"

section \<open>A small study, for concrete instances\<close>

text \<open>
  \<open>float\<close> on decimal literals without sign or exponent, surrounded by whitespace:
  the part of Python's \<open>float\<close> the run logs need.
\<close>

definition is_space :: "char \<Rightarrow> bool" where
  "is_space c = (c = CHR '' '' \<or> c = NL \<or> c = CR \<or> c = CHR 0x09)"

definition str_strip :: "string \<Rightarrow> string" where
  "str_strip s = rev (dropWhile is_space (rev (dropWhile is_space s)))"

fun digits_value :: "string \<Rightarrow> nat \<Rightarrow> nat option" where
  "digits_value [] acc = Some acc"
| "digits_value (c # cs) acc =
     (let n = (of_char c :: nat)
      in if 48 \<le> n \<and> n \<le> 57 then digits_value cs (10 * acc + (n - 48)) else None)"

definition decimal_float :: "string \<Rightarrow> real option" where
  "decimal_float s =
     (let t = str_strip s;
          whole = takeWhile (\<lambda>c. c \<noteq> CHR ''.'') t;
          frac = drop 1 (dropWhile (\<lambda>c. c \<noteq> CHR ''.'') t)
      in if whole = [] \<and> frac = [] then None
         else (case (digits_value whole 0, digits_value frac 0) of
                 (Some a, Some b) \<Rightarrow> Some (real a + real b / 10 ^ length frac)
               | _ \<Rightarrow> None))"

definition example_sorting :: sorting where
  "example_sorting =
     \<lparr>sort_sampling_frequency = Some 30000, sort_units = [(1, [10, 250, 900]), (2, [45, 460])]\<rparr>"

definition example_recording :: recording where
  "example_recording =
     \<lparr>rec_num_channels = 4, rec_sampling_frequency = 30000,
      rec_traces = [[0, 1, 0, 2]], rec_probe = [(0, [0, 0])]\<rparr>"

definition example_gt_dict :: "(string \<times> recording \<times> sorting) list" where
  "example_gt_dict =
     [(''rec1'', example_recording, example_sorting),
      (''rec2'', example_recording, example_sorting)]"

text \<open>A recording name with a carriage return, and a recording without channels.\<close>

definition example_cr_gt_dict :: "(string \<times> recording \<times> sorting) list" where
  "example_cr_gt_dict = [(''a'' @ [CR] @ ''b'', example_recording, example_sorting)]"


text \<open>One sorter output folder with a run log, one without.\<close>

definition example_outputs :: "(string \<times> string \<times> path) list" where
  "example_outputs =
     [(''rec1'', ''sorterA'', [''study'', ''sorter_outputs'', ''rec1'', ''sorterA'']),
      (''rec1'', ''sorterB'', [''study'', ''sorter_outputs'', ''rec1'', ''sorterB''])]"

definition example_log_fs :: filesystem where
  "example_log_fs =
     Map.empty([''study'', ''sorter_outputs'', ''rec1'', ''sorterA'', ''run_log.txt'']
       \<mapsto> File (Text (''run_time: 12.5'' @ [NL])))"

text \<open>The same folders, the line of the run log indented by one space.\<close>

definition example_indented_log_fs :: filesystem where
  "example_indented_log_fs =
     Map.empty([''study'', ''sorter_outputs'', ''rec1'', ''sorterA'', ''run_log.txt'']
       \<mapsto> File (Text ('' run_time: 3.5'' @ [NL])))"

text \<open>A \<open>names.txt\<close> with Windows line endings.\<close>

definition example_crlf_fs :: filesystem where
  "example_crlf_fs =
     Map.empty([''study'', ''names.txt'']
       \<mapsto> File (Text (''x'' @ [CR, NL] @ ''y'' @ [CR, NL])))"

text \<open>A filesystem where \<open>data\<close> is a regular file.\<close>

definition example_file_fs :: filesystem where
  "example_file_fs = Map.empty([] \<mapsto> Dir, [''data''] \<mapsto> File (Text ''notes''))"

text \<open>A study folder with one recording, its ground truth and one run log.\<close>

definition example_study_fs :: filesystem where
  "example_study_fs =
     Map.empty
       ([''study'', ''names.txt''] \<mapsto> File (Text (''rec1'' @ [NL])),
        [''study'', ''ground_truth'', ''rec1.npz''] \<mapsto> File (Npz example_sorting),
        [''study'', ''sorter_outputs'', ''rec1'', ''sorterA'', ''run_log.txt'']
          \<mapsto> File (Text (''run_time: 12.5'' @ [NL])))"

definition example_env :: env where
  "example_env =
     \<lparr>loop_over_folders = (\<lambda>fs p. (example_outputs, None)),
      collect_sorting_outputs = (\<lambda>fs p. Inr [((''rec1'', ''sorterA''), example_sorting)]),
      run_sorter = (\<lambda>name rec params opts.
         Inr [(''run_log.txt'', Text (''run_time: 12.5'' @ [NL]))]),
      compare_sorter_to_ground_truth = (\<lambda>gt tested.
         \<lparr>cmp_gt_sorting = gt, cmp_tested_sorting = tested,
          cmp_best_match = map (\<lambda>u. (u, None)) (get_unit_ids gt)\<rparr>),
      perf_keys = [''accuracy'', ''recall'', ''precision''],
      get_performance = (\<lambda>c method. []),
      count_well_detected_units = (\<lambda>c k. 0),
      count_redundant_units = (\<lambda>c. 0),
      count_false_positive_units = (\<lambda>c. 0),
      count_bad_units = (\<lambda>c. 0),
      py_float = decimal_float\<rparr>"

definition example_validation :: validation where
  "example_validation =
     \<lparr>update_param_dicts = (\<lambda>p. p),
      num_spikes_threshold_metric = (\<lambda>md t sign epoch save. md_sorting md),
      firing_rate_threshold_metric = (\<lambda>md t sign epoch save. md_sorting md),
      presence_ratio_threshold_metric = (\<lambda>md t sign epoch save. md_sorting md),
      isi_violation_threshold_metric = (\<lambda>md t sign epoch isi m save. md_sorting md)\<rparr>"

text \<open>The calls of a study session, in order.\<close>

definition example_calls :: "study_call list" where
  "example_calls =
     [Run_study_sorters [''sorterA''] [] ''keep'' ''loop'' [],
      Collect_run_times,
      Aggregate_sorting_comparison False [],
      Aggregate_performances_table True []]"

section \<open>Recording names: writing and reading \<open>names.txt\<close>\<close>

lemma universal_newlines_id: "CR \<notin> set s \<Longrightarrow> universal_newlines s = s"
  by (induction s rule: universal_newlines.induct) auto

lemma str_split_nonempty: "str_split sep s \<noteq> []"
  by (induction s) auto

lemma str_split_no_sep: "sep \<notin> set k \<Longrightarrow> str_split sep k = [k]"
  by (induction k) auto

lemma str_split_append:
  "sep \<notin> set k \<Longrightarrow> str_split sep (k @ sep # rest) = k # str_split sep rest"
  by (induction k) auto

lemma butlast_names:
  "ks \<noteq> [] \<Longrightarrow> butlast (concat (map (\<lambda>k. k @ [sep]) ks)) =
     concat (map (\<lambda>k. k @ [sep]) (butlast ks)) @ last ks"
  by (induction ks) (auto simp: butlast_append)

lemma str_split_names:
  "ks \<noteq> [] \<Longrightarrow> \<forall>k\<in>set ks. sep \<notin> set k \<Longrightarrow>
     str_split sep (butlast (concat (map (\<lambda>k. k @ [sep]) ks))) = ks"
proof (induction ks)
  case Nil
  then show ?case by simp
next
  case (Cons k ks)
  show ?case
  proof (cases "ks = []")
    case True
    with Cons.prems show ?thesis by (simp add: str_split_no_sep)
  next
    case False
    then have "concat (map (\<lambda>k. k @ [sep]) ks) \<noteq> []" by (cases ks) auto
    then have "butlast (concat (map (\<lambda>k. k @ [sep]) (k # ks))) =
        k @ sep # butlast (concat (map (\<lambda>k. k @ [sep]) ks))"
      by (simp add: butlast_append)
    with Cons False show ?thesis by (simp add: str_split_append)
  qed
qed

lemma names_text_eq: "names_text gt_dict = concat (map (\<lambda>k. k @ [NL]) (map fst gt_dict))"
  by (simp add: names_text_def)

lemma CR_names_text: "CR \<in> set (names_text gt_dict) \<longleftrightarrow> (\<exists>n\<in>set (map fst gt_dict). CR \<in> set n)"
  by (auto simp: names_text_eq)

lemma and_then_None:
  "and_then r f = (None, fs') \<longleftrightarrow> (\<exists>fs1. r = (None, fs1) \<and> f fs1 = (None, fs'))"
  by (cases r) (auto simp: and_then_def split: option.splits)

lemma write_file_None:
  "write_file p c fs = (None, fs') \<Longrightarrow> fs' = fs(p \<mapsto> File c)"
  by (auto simp: write_file_def split: if_splits option.splits node.splits)

lemma setup_names_file:
  assumes "setup_comparison_study sf gt_dict fs = (None, fs')"
  shows "fs' (sf @ [''names.txt'']) = Some (File (Text (names_text gt_dict)))"
  using assms
  by (auto simp: setup_comparison_study_def and_then_None split: if_splits dest!: write_file_None)

lemma get_rec_names_after_setup:
  assumes "setup_comparison_study sf gt_dict fs = (None, fs')"
  shows "get_rec_names fs' sf = Inr (str_split NL (butlast (universal_newlines (names_text gt_dict))))"
  using setup_names_file[OF assms] by (simp add: get_rec_names_def read_text_def)

text \<open>
  Claim C3, as amended. For a non-empty \<open>gt_dict\<close> whose recording names hold neither
  a newline nor a carriage return, and a study folder that does not exist yet: once
  \<open>setup_comparison_study\<close> has returned, \<open>get_rec_names\<close> returns the keys of
  \<open>gt_dict\<close>, in their order and without duplicates.
\<close>

theorem rec_names_after_setup:
  assumes "gt_dict \<noteq> []" and "distinct (map fst gt_dict)"
    and "\<forall>n\<in>set (map fst gt_dict). NL \<notin> set n \<and> CR \<notin> set n"
    and "\<not> path_exists fs sf"
    and "setup_comparison_study sf gt_dict fs = (None, fs')"
  shows "get_rec_names fs' sf = Inr (map fst gt_dict) \<and> distinct (map fst gt_dict)"
proof -
  have "CR \<notin> set (names_text gt_dict)" using assms(3) by (auto simp: CR_names_text)
  then have "universal_newlines (names_text gt_dict) = names_text gt_dict"
    by (rule universal_newlines_id)
  moreover have "str_split NL (butlast (names_text gt_dict)) = map fst gt_dict"
    unfolding names_text_eq using assms(1,3) by (intro str_split_names) auto
  ultimately show ?thesis using get_rec_names_after_setup[OF assms(5)] assms(2) by simp
qed


lemma butlast_two: "butlast (sf @ [a, b]) = sf @ [a]"
  by (simp add: butlast_append)

lemma write_file_under:
  assumes "fs (sf @ [d]) = Some Dir" and "fs (sf @ [d, n]) \<noteq> Some Dir"
  shows "write_file (sf @ [d, n]) c fs = (None, fs(sf @ [d, n] \<mapsto> File c))"
  using assms by (simp add: write_file_def butlast_two)

lemma study_inv_upd_raw:
  "study_inv sf fs \<Longrightarrow> study_inv sf (fs(sf @ [''raw_files'', n] \<mapsto> File c))"
  by (auto simp: study_inv_def)

lemma study_inv_upd_gt:
  "study_inv sf fs \<Longrightarrow> study_inv sf (fs(sf @ [''ground_truth'', n] \<mapsto> File c))"
  by (auto simp: study_inv_def)

lemma write_recording_ok:
  assumes "study_inv sf fs" and "0 < rec_num_channels r"
  shows "write_recording sf n r g fs = (None, store_files (recording_files sf n r g) fs)"
proof -
  let ?raw = "sf @ [''raw_files'', n @ ''.raw'']"
  let ?prb = "sf @ [''raw_files'', n @ ''.prb'']"
  let ?json = "sf @ [''raw_files'', n @ ''.json'']"
  have i1: "study_inv sf (fs(?raw \<mapsto> File a))" for a
    using assms(1) by (rule study_inv_upd_raw)
  have i2: "study_inv sf (fs(?raw \<mapsto> File a, ?prb \<mapsto> File b))" for a b
    using i1 by (rule study_inv_upd_raw)
  have i3: "study_inv sf (fs(?raw \<mapsto> File a, ?prb \<mapsto> File b, ?json \<mapsto> File c))" for a b c
    using i2 by (rule study_inv_upd_raw)
  have w: "study_inv sf f \<Longrightarrow> write_file (sf @ [''raw_files'', m]) c f = (None, f(sf @ [''raw_files'', m] \<mapsto> File c))"
    "study_inv sf f \<Longrightarrow> write_file (sf @ [''ground_truth'', m]) c f = (None, f(sf @ [''ground_truth'', m] \<mapsto> File c))" for f m c
    by (auto simp: study_inv_def intro!: write_file_under)
  show ?thesis
    using assms(2)
    by (simp add: write_recording_def Let_def write_binary_dat_format_def save_probe_file_def
        write_sorting_def and_then_def w[OF assms(1)] w[OF i1] w[OF i2] w[OF i3]
        store_files_def recording_files_def)
qed

lemma study_inv_store:
  "study_inv sf fs \<Longrightarrow> study_inv sf (store_files (recording_files sf n r g) fs)"
  by (simp add: store_files_def recording_files_def study_inv_upd_raw study_inv_upd_gt)

lemma write_recordings_ok:
  assumes "study_inv sf fs" and "\<forall>(n, r, g)\<in>set xs. 0 < rec_num_channels r"
  shows "write_recordings sf xs fs = (None, store_all sf xs fs) \<and> study_inv sf (store_all sf xs fs)"
  using assms
proof (induction xs arbitrary: fs)
  case Nil
  then show ?case by simp
next
  case (Cons x xs)
  obtain n r g where x: "x = (n, r, g)" by (cases x)
  from Cons.prems x have pos: "0 < rec_num_channels r" by simp
  have inv': "study_inv sf (store_files (recording_files sf n r g) fs)"
    using Cons.prems(1) by (rule study_inv_store)
  from Cons.IH[OF inv'] Cons.prems(2)
  show ?case
    by (simp add: x write_recording_ok[OF Cons.prems(1) pos] and_then_def)
qed

section \<open>Creating a study: the folder layout\<close>

lemma absent_below:
  "wf_fs fs \<Longrightarrow> fs sf = None \<Longrightarrow> strict_prefix sf p \<Longrightarrow> fs p = None"
  unfolding wf_fs_def by (metis option.distinct(1))

lemma strict_prefix_snoc1: "strict_prefix sf (sf @ [a])"
  by (simp add: strict_prefix_def)

lemma strict_prefix_snoc2: "strict_prefix sf (sf @ [a, b])"
  by (simp add: strict_prefix_def)

lemma not_prefix_snoc1: "\<not> prefix (sf @ [a]) sf"
  by (auto simp: prefix_def)

lemma not_prefix_snoc2 [simp]: "\<not> prefix (sf @ [a, b]) sf" "\<not> prefix (sf @ [a, b]) (sf @ [c])"
  by (auto simp: prefix_def)

lemma prefix_snoc_snoc [simp]: "prefix (sf @ [a]) (sf @ [b]) \<longleftrightarrow> a = b"
  by (auto simp: prefix_def)

lemma makedirs_study:
  assumes "wf_fs fs" and "fs sf = None" and nf: "\<forall>q. strict_prefix q sf \<longrightarrow> \<not> is_file fs q"
  shows "\<exists>fs3. and_then (makedirs sf fs) (\<lambda>fs.
           and_then (makedirs (sf @ [''raw_files'']) fs) (\<lambda>fs.
           and_then (makedirs (sf @ [''ground_truth'']) fs) f)) = f fs3 \<and> study_inv sf fs3"
proof -
  have b: "fs (sf @ [a]) = None" "fs (sf @ [a, c]) = None" for a c
    using absent_below[OF assms(1,2) strict_prefix_snoc1] absent_below[OF assms(1,2) strict_prefix_snoc2]
    by auto
  define fs1 where "fs1 = (\<lambda>q. if prefix q sf \<and> fs q = None then Some Dir else fs q)"
  define fs2 where "fs2 = (\<lambda>q. if prefix q (sf @ [''raw_files'']) \<and> fs1 q = None then Some Dir else fs1 q)"
  define fs3 where "fs3 = (\<lambda>q. if prefix q (sf @ [''ground_truth'']) \<and> fs2 q = None then Some Dir else fs2 q)"
  have f0: "\<not> is_file fs q" if "prefix q sf" for q
    using that nf assms(2) by (cases "q = sf") (auto simp: strict_prefix_def is_file_def)
  have f1: "\<not> is_file fs1 q" if "prefix q sf" for q
    using f0[OF that] by (auto simp: fs1_def is_file_def split: option.splits node.splits)
  have m1: "makedirs sf fs = (None, fs1)"
    using assms(2) f0 by (simp add: makedirs_def path_exists_def fs1_def list_ex_iff)
  have e1: "fs1 (sf @ [a]) = None" "fs1 (sf @ [a, c]) = None" "fs1 sf = Some Dir" for a c
    using b assms(2) by (simp_all add: fs1_def not_prefix_snoc1)
  have m2: "makedirs (sf @ [''raw_files'']) fs1 = (None, fs2)"
    using e1 f1 by (auto simp: makedirs_def path_exists_def fs2_def list_ex_iff is_file_def)
  have e2: "fs2 (sf @ [''raw_files'']) = Some Dir" "fs2 (sf @ [''ground_truth'']) = None"
    "fs2 (sf @ [''names.txt'']) = None"
    "fs2 (sf @ [a, c]) = None" "fs2 sf = Some Dir" for a c
    using e1 by (simp_all add: fs2_def)
  have f2: "\<not> is_file fs2 q" if "prefix q sf" for q
    using f1[OF that] by (auto simp: fs2_def is_file_def split: option.splits node.splits)
  have m3: "makedirs (sf @ [''ground_truth'']) fs2 = (None, fs3)"
    using e2 f2 by (auto simp: makedirs_def path_exists_def fs3_def list_ex_iff is_file_def)
  have "study_inv sf fs3"
    using e2 by (simp add: study_inv_def fs3_def)
  then show ?thesis
    by (intro exI[of _ fs3]) (simp add: m1 m2 m3 and_then_def)
qed








lemma setup_succeeds:
  assumes "wf_fs fs" and "\<forall>(n, r, g)\<in>set gt_dict. 0 < rec_num_channels r"
    and "\<not> path_exists fs sf" and "\<forall>q. strict_prefix q sf \<longrightarrow> \<not> is_file fs q"
  shows "\<exists>fs3. study_inv sf fs3 \<and>
           setup_comparison_study sf gt_dict fs =
             (None, (store_all sf gt_dict fs3)(sf @ [''names.txt''] \<mapsto> File (Text (names_text gt_dict)))) \<and>
           study_inv sf (store_all sf gt_dict fs3)"
proof -
  from assms(3) have none: "fs sf = None" by (simp add: path_exists_def)
  let ?f = "\<lambda>fs. and_then (write_recordings sf gt_dict fs) (\<lambda>fs.
        write_file (sf @ [''names.txt'']) (Text (names_text gt_dict)) fs)"
  from makedirs_study[OF assms(1) none assms(4), of ?f]
  obtain fs3 where s: "setup_comparison_study sf gt_dict fs = ?f fs3" and inv: "study_inv sf fs3"
    using assms(3) by (auto simp: setup_comparison_study_def)
  from write_recordings_ok[OF inv assms(2)]
  have w: "write_recordings sf gt_dict fs3 = (None, store_all sf gt_dict fs3)"
    and inv': "study_inv sf (store_all sf gt_dict fs3)" by auto
  have "write_file (sf @ [''names.txt'']) c (store_all sf gt_dict fs3) =
      (None, (store_all sf gt_dict fs3)(sf @ [''names.txt''] \<mapsto> File c))" for c
    using inv' by (simp add: write_file_def study_inv_def)
  with s w inv inv' show ?thesis by (auto simp: and_then_def)
qed


section \<open>Collecting run times\<close>

lemma collect_loop_filter:
  "collect_run_times_loop env fs folders acc =
     collect_run_times_loop env fs (filter (has_run_log fs) folders) acc"
  by (induction env fs folders acc rule: collect_run_times_loop.induct)
     (auto simp: has_run_log_def split: sum.splits)

lemma collect_loop_logged:
  assumes "\<forall>x\<in>set folders. has_run_log fs x"
  shows "collect_run_times_loop env fs folders acc = Inr rts \<longleftrightarrow>
           (\<exists>ts. rts = acc @ ts \<and> list_all2 (run_time_of env fs) folders ts)"
  using assms
proof (induction env fs folders acc rule: collect_run_times_loop.induct)
  case (1 env fs run_times)
  then show ?case by auto
next
  case (2 env fs rec_name sorter_name output_folder rest run_times)
  have log: "path_exists fs (output_folder @ [''run_log.txt''])"
    using "2.prems" by (simp add: has_run_log_def)
  show ?case
  proof (cases "read_run_time env fs output_folder")
    case (Inl e)
    then show ?thesis
      using log by (auto simp: list_all2_Cons1 run_time_of_def)
  next
    case (Inr t)
    have "collect_run_times_loop env fs rest (run_times @ [(rec_name, sorter_name, t)]) = Inr rts
        \<longleftrightarrow> (\<exists>ts. rts = (run_times @ [(rec_name, sorter_name, t)]) @ ts \<and>
               list_all2 (run_time_of env fs) rest ts)"
      using "2.IH"(1)[OF log Inr] "2.prems" by simp
    then show ?thesis
      using log Inr by (auto simp: list_all2_Cons1 run_time_of_def)
  qed
qed

lemma collect_loop_result:
  "collect_run_times_loop env fs folders [] = Inr rts \<longleftrightarrow>
     list_all2 (run_time_of env fs) (filter (has_run_log fs) folders) rts"
proof -
  have "\<forall>x\<in>set (filter (has_run_log fs) folders). has_run_log fs x" by simp
  from collect_loop_logged[OF this, of env "[]" rts] show ?thesis
    by (subst collect_loop_filter) simp
qed

lemma list_all2_ex:
  "(\<exists>ys. list_all2 P xs ys) \<longleftrightarrow> (\<forall>x\<in>set xs. \<exists>y. P x y)"
proof
  assume "\<exists>ys. list_all2 P xs ys"
  then obtain ys where "list_all2 P xs ys" by blast
  then show "\<forall>x\<in>set xs. \<exists>y. P x y"
    by (induction rule: list_all2_induct) auto
next
  assume "\<forall>x\<in>set xs. \<exists>y. P x y"
  then show "\<exists>ys. list_all2 P xs ys"
  proof (induction xs)
    case Nil
    then show ?case by simp
  next
    case (Cons x xs)
    then obtain y ys where "P x y" "list_all2 P xs ys" by auto
    then have "list_all2 P (x # xs) (y # ys)" by simp
    then show ?case by blast
  qed
qed

lemma read_run_time_iff:
  "read_run_time env fs output_folder = Inr t \<longleftrightarrow>
     (\<exists>txt. read_text fs (output_folder @ [''run_log.txt'']) = Inr txt \<and>
        py_float env (str_replace ''run_time:'' [] (readline txt)) = Some t)"
  by (auto simp: read_run_time_def split: sum.splits option.splits)

text \<open>
  Claim C6, as amended. When the output folders have been enumerated,
  \<open>collect_run_times\<close> returns exactly one triple for each of them that holds a
  \<open>run_log.txt\<close>, in order, with the run time read from it; it returns whenever each
  of these logs can be read, whatever the folders without a log hold. The run time is
  \<open>float\<close> of the first line of the log with every occurrence of \<open>run_time:\<close>
  removed.
\<close>

theorem collect_run_times_logged:
  assumes "loop_over_folders env fs (sf @ [''sorter_outputs'']) = (folders, None)"
  shows "(collect_run_times env fs sf = Inr rts \<longleftrightarrow>
            list_all2 (run_time_of env fs) (filter (has_run_log fs) folders) rts) \<and>
         ((\<exists>rts. collect_run_times env fs sf = Inr rts) \<longleftrightarrow>
            (\<forall>x\<in>set (filter (has_run_log fs) folders). \<exists>t. run_time_of env fs x t)) \<and>
         (read_run_time env fs output_folder = Inr t \<longleftrightarrow>
            (\<exists>txt. read_text fs (output_folder @ [''run_log.txt'']) = Inr txt \<and>
               py_float env (str_replace ''run_time:'' [] (readline txt)) = Some t))"
proof -
  have c: "collect_run_times env fs sf = collect_run_times_loop env fs folders []"
    using assms by (simp add: collect_run_times_def split: sum.splits)
  have 1: "collect_run_times env fs sf = Inr r \<longleftrightarrow>
            list_all2 (run_time_of env fs) (filter (has_run_log fs) folders) r" for r
    unfolding c by (rule collect_loop_result)
  have 2: "(\<exists>rts. collect_run_times env fs sf = Inr rts) \<longleftrightarrow>
            (\<forall>x\<in>set (filter (has_run_log fs) folders). \<exists>t. run_time_of env fs x t)"
    unfolding 1 by (rule list_all2_ex)
  show ?thesis using 1 2 read_run_time_iff by blast
qed

section \<open>Comparing the collected outputs against the ground truths\<close>






lemma comparisons_loop_succeeds:
  "(\<exists>c. comparisons_loop env gts results acc = Inr c) \<longleftrightarrow>
     (\<forall>((r, s), x)\<in>set results. map_of gts r \<noteq> None)"
  by (induction env gts results acc rule: comparisons_loop.induct)
     (auto simp: dict_get_def Let_def split: option.splits)

lemma comparisons_loop_keys:
  "comparisons_loop env gts results acc = Inr c \<Longrightarrow>
     fst ` set c = fst ` set acc \<union> fst ` set results"
proof (induction env gts results acc rule: comparisons_loop.induct)
  case (1 env ground_truths comparisons)
  then show ?case by simp
next
  case (2 env ground_truths rec_name sorter_name sorting rest comparisons)
  from "2.prems" obtain g where g: "dict_get ground_truths rec_name = Inr g"
    and r: "comparisons_loop env ground_truths rest
              (AList.update (rec_name, sorter_name)
                 (compare_sorter_to_ground_truth env g sorting) comparisons) = Inr c"
    by (auto simp: Let_def split: sum.splits)
  from "2.IH"[OF g refl r] show ?case
    by (auto simp: dom_update)
qed




section \<open>The frames of the performance tables\<close>

lemma df_index_run_times_frame:
  "df_index (run_times_frame rt) = map (\<lambda>(r, s, t). (r, s)) rt"
  by (simp add: df_index_def run_times_frame_def comp_def case_prod_unfold)

lemma df_index_new_frame: "df_index (new_frame index columns) = index"
  by (simp add: df_index_def new_frame_def comp_def)

lemma df_columns_new_frame: "df_columns (new_frame index columns) = columns"
  by (simp add: new_frame_def)

lemma df_index_set_column: "df_index (set_column col v df) = df_index df"
  by (simp add: df_index_def set_column_def comp_def case_prod_unfold)

lemma df_columns_set_column:
  "df_columns (set_column col v df) =
     (if col \<in> set (df_columns df) then df_columns df else df_columns df @ [col])"
  by (simp add: set_column_def)

lemma map_fst_cond:
  "map fst (map (\<lambda>(k, row). if k = key then (k, f k row) else (k, row)) rows) = map fst rows"
  by (induction rows) auto

lemma df_index_loc_set:
  "df_index (loc_set key col v df) =
     (if key \<in> set (df_index df) then df_index df else df_index df @ [key])"
  using map_fst_cond[of key "\<lambda>k row. AList.update col v row" "df_rows df"]
  by (simp add: df_index_def loc_set_def)

lemma df_columns_loc_set:
  "df_columns (loc_set key col v df) =
     (if col \<in> set (df_columns df) then df_columns df else df_columns df @ [col])"
  by (simp add: loc_set_def)

lemma df_index_loc_set_row:
  "df_index (loc_set_row key series df) =
     (if key \<in> set (df_index df) then df_index df else df_index df @ [key])"
  using map_fst_cond[of key "\<lambda>k r. map (\<lambda>c. (c, case map_of series c of None \<Rightarrow> NaN | Some x \<Rightarrow> Float x))
                  (df_columns df)" "df_rows df"]
  by (simp add: df_index_def loc_set_row_def Let_def)

lemma df_columns_loc_set_row: "df_columns (loc_set_row key series df) = df_columns df"
  by (simp add: loc_set_row_def Let_def)

lemma enlarge1_idem: "enlarge1 k (enlarge1 k idx) = enlarge1 k idx"
  by (simp add: enlarge1_def)

lemma enlarge_index_Cons: "enlarge_index idx (k # ks) = enlarge_index (enlarge1 k idx) ks"
  by (simp add: enlarge_index_def enlarge1_def)

lemma enlarge_index_Nil: "enlarge_index idx [] = idx"
  by (simp add: enlarge_index_def)

lemma set_enlarge_index: "set (enlarge_index idx ks) = set idx \<union> set ks"
  by (induction ks arbitrary: idx) (auto simp: enlarge_index_Cons enlarge_index_Nil enlarge1_def)

lemma enlarge_index_subset: "set ks \<subseteq> set idx \<Longrightarrow> enlarge_index idx ks = idx"
  by (induction ks arbitrary: idx) (auto simp: enlarge_index_Cons enlarge_index_Nil enlarge1_def)

lemma performances_loop_frames:
  assumes "performances_loop env ex kt gts results comps (a, b, c) = Inr (a', b', c')"
    and "count_columns_ok ex c"
  shows "df_index a' = enlarge_index (df_index a) (map fst comps) \<and>
         df_index b' = enlarge_index (df_index b) (map fst comps) \<and>
         df_index c' = enlarge_index (df_index c) (map fst comps) \<and>
         df_columns a' = df_columns a \<and> df_columns b' = df_columns b \<and>
         df_columns c' = df_columns c"
  using assms
proof (induction comps arbitrary: a b c)
  case Nil
  then show ?case by (simp add: enlarge_index_Nil)
next
  case (Cons x comps)
  obtain r s cmp where x: "x = ((r, s), cmp)" by (cases x) auto
  from Cons.prems(1) obtain g srt where g: "dict_get gts r = Inr g"
    and srt: "dict_get results (r, s) = Inr srt"
    unfolding x by (auto split: sum.splits)
  define a1 where "a1 = loc_set_row (r, s) (get_performance env cmp ''pooled_with_sum'') a"
  define b1 where "b1 = loc_set_row (r, s) (get_performance env cmp ''pooled_with_average'') b"
  define c4 where "c4 = loc_set (r, s) ''num_redundant'' (Count (count_redundant_units env cmp))
      (loc_set (r, s) ''num_well_detected'' (Count (count_well_detected_units env cmp kt))
        (loc_set (r, s) ''num_sorter'' (Count (length (get_unit_ids srt)))
          (loc_set (r, s) ''num_gt'' (Count (length (get_unit_ids g))) c)))"
  define c1 where "c1 = (if ex
      then loc_set (r, s) ''num_bad'' (Count (count_bad_units env cmp))
             (loc_set (r, s) ''num_false_positive''
                (Count (count_false_positive_units env cmp)) c4)
      else c4)"
  have rest: "performances_loop env ex kt gts results comps (a1, b1, c1) = Inr (a', b', c')"
    using Cons.prems(1) unfolding x
    by (cases ex) (simp_all add: g srt Let_def a1_def b1_def c1_def c4_def)
  have ia: "df_index a1 = enlarge1 (r, s) (df_index a)" "df_columns a1 = df_columns a"
    by (simp_all add: a1_def df_index_loc_set_row df_columns_loc_set_row enlarge1_def)
  have ib: "df_index b1 = enlarge1 (r, s) (df_index b)" "df_columns b1 = df_columns b"
    by (simp_all add: b1_def df_index_loc_set_row df_columns_loc_set_row enlarge1_def)
  have cols: "{''num_gt'', ''num_sorter'', ''num_well_detected'', ''num_redundant''} \<subseteq> set (df_columns c)"
    "ex \<Longrightarrow> {''num_false_positive'', ''num_bad''} \<subseteq> set (df_columns c)"
    using Cons.prems(2) by (auto simp: count_columns_ok_def)
  have c4c: "df_columns c4 = df_columns c"
    using cols(1) by (simp add: c4_def df_columns_loc_set)
  have c4i: "df_index c4 = enlarge1 (r, s) (df_index c)"
    by (simp add: c4_def df_index_loc_set enlarge1_def)
  have ic: "df_index c1 = enlarge1 (r, s) (df_index c)" "df_columns c1 = df_columns c"
    using cols(2) c4c c4i by (auto simp: c1_def df_index_loc_set df_columns_loc_set enlarge1_def)
  have ok: "count_columns_ok ex c1"
    using Cons.prems(2) ic(2) by (simp add: count_columns_ok_def)
  from Cons.IH[OF rest ok] show ?case
    by (simp add: x enlarge_index_Cons ia ib ic)
qed

lemma performances_loop_succeeds:
  assumes "\<forall>((r, s), cmp)\<in>set comps. map_of gts r \<noteq> None \<and> map_of results (r, s) \<noteq> None"
  shows "\<exists>fr. performances_loop env ex kt gts results comps frames = Inr fr"
  using assms
proof (induction comps arbitrary: frames)
  case Nil
  obtain a b c where "frames = (a, b, c)" by (metis prod_cases3)
  then show ?case by simp
next
  case (Cons x comps)
  obtain r s cmp where x: "x = ((r, s), cmp)" by (cases x) auto
  obtain a b c where f: "frames = (a, b, c)" by (metis prod_cases3)
  from Cons.prems x obtain g srt where "map_of gts r = Some g" "map_of results (r, s) = Some srt"
    by auto
  then have g: "dict_get gts r = Inr g" "dict_get results (r, s) = Inr srt"
    by (simp_all add: dict_get_def)
  from Cons.prems have "\<forall>((r, s), cmp)\<in>set comps. map_of gts r \<noteq> None \<and> map_of results (r, s) \<noteq> None"
    by simp
  from Cons.IH[OF this] show ?case
    by (simp add: x f g Let_def)
qed

subsection \<open>The dictionary of frames\<close>

lemma count_units_frame_columns:
  "df_columns (count_units_frame ex idx) =
     [''num_gt'', ''num_sorter'', ''num_well_detected'', ''num_redundant''] @
     (if ex then [''num_false_positive'', ''num_bad''] else [])"
  by (simp add: count_units_frame_def df_columns_set_column df_columns_new_frame)

lemma count_units_frame_index: "df_index (count_units_frame ex idx) = idx"
  by (simp add: count_units_frame_def df_index_set_column df_index_new_frame)

lemma count_units_frame_ok: "count_columns_ok ex (count_units_frame ex idx)"
  by (simp add: count_columns_ok_def count_units_frame_columns)

lemma table_unfold:
  assumes "aggregate_sorting_comparison env fs sf ex kt = Inr comparisons"
    and "get_ground_truths fs sf = Inr gts"
    and "collect_sorting_outputs env fs (sf @ [''sorter_outputs'']) = Inr results"
    and "collect_run_times env fs sf = Inr rt"
  shows "aggregate_performances_table env fs sf ex kt =
     (case performances_loop env ex kt gts results comparisons
             (new_frame (df_index (run_times_frame rt)) (perf_keys env),
              new_frame (df_index (run_times_frame rt)) (perf_keys env),
              count_units_frame ex (df_index (run_times_frame rt))) of
        Inl e \<Rightarrow> Inl e
      | Inr (perf_pooled_with_sum, perf_pooled_with_average, count_units) \<Rightarrow>
          Inr [(''run_times'', run_times_frame rt),
               (''perf_pooled_with_sum'', perf_pooled_with_sum),
               (''perf_pooled_with_average'', perf_pooled_with_average),
               (''count_units'', count_units)])"
  using assms
  by (cases ex) (simp_all add: aggregate_performances_table_def Let_def count_units_frame_def)

lemma table_parts:
  assumes "aggregate_performances_table env fs sf ex kt = Inr out"
  shows "\<exists>comparisons gts results rt.
           aggregate_sorting_comparison env fs sf ex kt = Inr comparisons \<and>
           get_ground_truths fs sf = Inr gts \<and>
           collect_sorting_outputs env fs (sf @ [''sorter_outputs'']) = Inr results \<and>
           collect_run_times env fs sf = Inr rt"
  using assms
  by (auto simp: aggregate_performances_table_def Let_def split: sum.splits)

lemma aggregate_parts:
  assumes "aggregate_sorting_comparison env fs sf ex kt = Inr comparisons"
  shows "\<exists>gts results.
           get_ground_truths fs sf = Inr gts \<and>
           collect_sorting_outputs env fs (sf @ [''sorter_outputs'']) = Inr results \<and>
           comparisons_loop env gts results [] = Inr comparisons"
  using assms
  by (auto simp: aggregate_sorting_comparison_def Let_def split: sum.splits)

lemma table_result:
  assumes "aggregate_performances_table env fs sf ex kt = Inr out"
  shows "\<exists>rt comparisons run_times perf_sum perf_avg cu.
       collect_run_times env fs sf = Inr rt \<and>
       aggregate_sorting_comparison env fs sf ex kt = Inr comparisons \<and>
       out = [(''run_times'', run_times), (''perf_pooled_with_sum'', perf_sum),
              (''perf_pooled_with_average'', perf_avg), (''count_units'', cu)] \<and>
       df_index run_times = map (\<lambda>(r, s, t). (r, s)) rt \<and>
       df_index perf_sum = enlarge_index (df_index run_times) (map fst comparisons) \<and>
       df_index perf_avg = enlarge_index (df_index run_times) (map fst comparisons) \<and>
       df_index cu = enlarge_index (df_index run_times) (map fst comparisons) \<and>
       df_columns run_times = [''run_time''] \<and>
       df_columns perf_sum = perf_keys env \<and>
       df_columns perf_avg = perf_keys env \<and>
       df_columns cu =
         [''num_gt'', ''num_sorter'', ''num_well_detected'', ''num_redundant''] @
         (if ex then [''num_false_positive'', ''num_bad''] else [])"
proof -
  from table_parts[OF assms] obtain comparisons gts results rt where
    p: "aggregate_sorting_comparison env fs sf ex kt = Inr comparisons"
       "get_ground_truths fs sf = Inr gts"
       "collect_sorting_outputs env fs (sf @ [''sorter_outputs'']) = Inr results"
       "collect_run_times env fs sf = Inr rt"
    by blast
  let ?idx = "df_index (run_times_frame rt)"
  from assms table_unfold[OF p] obtain a b c where
    l: "performances_loop env ex kt gts results comparisons
             (new_frame ?idx (perf_keys env), new_frame ?idx (perf_keys env),
              count_units_frame ex ?idx) = Inr (a, b, c)"
    and out: "out = [(''run_times'', run_times_frame rt), (''perf_pooled_with_sum'', a),
               (''perf_pooled_with_average'', b), (''count_units'', c)]"
    by (auto split: sum.splits)
  from performances_loop_frames[OF l count_units_frame_ok]
  have f: "df_index a = enlarge_index ?idx (map fst comparisons)"
    "df_index b = enlarge_index ?idx (map fst comparisons)"
    "df_index c = enlarge_index ?idx (map fst comparisons)"
    "df_columns a = perf_keys env" "df_columns b = perf_keys env"
    "df_columns c = [''num_gt'', ''num_sorter'', ''num_well_detected'', ''num_redundant''] @
         (if ex then [''num_false_positive'', ''num_bad''] else [])"
    by (simp_all add: df_index_new_frame df_columns_new_frame count_units_frame_index
        count_units_frame_columns)
  have r: "df_index (run_times_frame rt) = map (\<lambda>(r, s, t). (r, s)) rt"
    "df_columns (run_times_frame rt) = [''run_time'']"
    by (simp add: df_index_run_times_frame) (simp add: run_times_frame_def)
  from p(4) p(1) out r f show ?thesis by blast
qed

lemma table_succeeds:
  "(\<exists>out. aggregate_performances_table env fs sf ex kt = Inr out) \<longleftrightarrow>
     (\<exists>c. aggregate_sorting_comparison env fs sf ex kt = Inr c) \<and>
     (\<exists>rt. collect_run_times env fs sf = Inr rt)" (is "?L \<longleftrightarrow> ?R")
proof
  assume ?L
  then show ?R using table_parts by blast
next
  assume ?R
  then obtain comparisons rt where
    c: "aggregate_sorting_comparison env fs sf ex kt = Inr comparisons"
    and rt: "collect_run_times env fs sf = Inr rt" by blast
  from aggregate_parts[OF c] obtain gts results where
    g: "get_ground_truths fs sf = Inr gts"
    and r: "collect_sorting_outputs env fs (sf @ [''sorter_outputs'']) = Inr results"
    and l: "comparisons_loop env gts results [] = Inr comparisons" by blast
  have keys: "fst ` set comparisons = fst ` set results"
    using comparisons_loop_keys[OF l] by simp
  have ok: "\<forall>((r, s), x)\<in>set results. map_of gts r \<noteq> None"
    using l comparisons_loop_succeeds by blast
  have "map_of gts r \<noteq> None \<and> map_of results (r, s) \<noteq> None"
    if "((r, s), cmp) \<in> set comparisons" for r s cmp
  proof -
    from that have "(r, s) \<in> fst ` set comparisons" by force
    with keys have k: "(r, s) \<in> fst ` set results" by simp
    then obtain x where "((r, s), x) \<in> set results" by auto
    with ok have "map_of gts r \<noteq> None" by auto
    moreover from k have "map_of results (r, s) \<noteq> None"
      by (simp add: map_of_eq_None_iff)
    ultimately show ?thesis by simp
  qed
  then have "\<forall>((r, s), cmp)\<in>set comparisons.
      map_of gts r \<noteq> None \<and> map_of results (r, s) \<noteq> None" by auto
  from performances_loop_succeeds[OF this] obtain fr where
    "performances_loop env ex kt gts results comparisons
             (new_frame (df_index (run_times_frame rt)) (perf_keys env),
              new_frame (df_index (run_times_frame rt)) (perf_keys env),
              count_units_frame ex (df_index (run_times_frame rt))) = Inr fr"
    by blast
  then show ?L
    by (cases fr) (simp add: table_unfold[OF c g r rt])
qed

text \<open>
  Claim C2. When \<open>aggregate_performances_table\<close> returns, its dictionary has the four
  keys \<open>run_times\<close>, \<open>perf_pooled_with_sum\<close>, \<open>perf_pooled_with_average\<close> and
  \<open>count_units\<close>, in this order. \<open>run_times\<close> is indexed by the (rec_name,
  sorter_name) pairs of the collected run times; the three other frames start with that
  index and get a row for every compared pair that is not in it, so all four have the
  same index when every compared pair has a run time. \<open>count_units\<close> has the columns
  \<open>num_gt\<close>, \<open>num_sorter\<close>, \<open>num_well_detected\<close> and \<open>num_redundant\<close>, followed
  by \<open>num_false_positive\<close> and \<open>num_bad\<close> if and only if \<open>exhaustive_gt\<close> holds.
  The function returns exactly when the comparisons and the run times can be collected.
\<close>

theorem aggregate_performances_table_frames:
  "(aggregate_performances_table env fs sf exhaustive_gt karg_thresh = Inr out \<longrightarrow>
     (\<exists>rt comparisons run_times perf_sum perf_avg count_units.
        collect_run_times env fs sf = Inr rt \<and>
        aggregate_sorting_comparison env fs sf exhaustive_gt karg_thresh = Inr comparisons \<and>
        out = [(''run_times'', run_times), (''perf_pooled_with_sum'', perf_sum),
               (''perf_pooled_with_average'', perf_avg), (''count_units'', count_units)] \<and>
        df_index run_times = map (\<lambda>(r, s, t). (r, s)) rt \<and>
        df_index perf_sum = enlarge_index (df_index run_times) (map fst comparisons) \<and>
        df_index perf_avg = enlarge_index (df_index run_times) (map fst comparisons) \<and>
        df_index count_units = enlarge_index (df_index run_times) (map fst comparisons) \<and>
        (set (map fst comparisons) \<subseteq> set (df_index run_times) \<longrightarrow>
           df_index perf_sum = df_index run_times \<and>
           df_index perf_avg = df_index run_times \<and>
           df_index count_units = df_index run_times) \<and>
        df_columns run_times = [''run_time''] \<and>
        df_columns perf_sum = perf_keys env \<and>
        df_columns perf_avg = perf_keys env \<and>
        df_columns count_units =
          [''num_gt'', ''num_sorter'', ''num_well_detected'', ''num_redundant''] @
          (if exhaustive_gt then [''num_false_positive'', ''num_bad''] else []) \<and>
        (''num_false_positive'' \<in> set (df_columns count_units) \<longleftrightarrow> exhaustive_gt) \<and>
        (''num_bad'' \<in> set (df_columns count_units) \<longleftrightarrow> exhaustive_gt))) \<and>
   ((\<exists>out. aggregate_performances_table env fs sf exhaustive_gt karg_thresh = Inr out) \<longleftrightarrow>
      (\<exists>c. aggregate_sorting_comparison env fs sf exhaustive_gt karg_thresh = Inr c) \<and>
      (\<exists>rt. collect_run_times env fs sf = Inr rt))"
proof (rule conjI, rule impI)
  assume "aggregate_performances_table env fs sf exhaustive_gt karg_thresh = Inr out"
  from table_result[OF this] obtain rt comparisons run_times perf_sum perf_avg cu where
    r: "collect_run_times env fs sf = Inr rt"
       "aggregate_sorting_comparison env fs sf exhaustive_gt karg_thresh = Inr comparisons"
       "out = [(''run_times'', run_times), (''perf_pooled_with_sum'', perf_sum),
              (''perf_pooled_with_average'', perf_avg), (''count_units'', cu)]"
       "df_index run_times = map (\<lambda>(r, s, t). (r, s)) rt"
       "df_columns run_times = [''run_time'']"
       "df_columns perf_sum = perf_keys env"
       "df_columns perf_avg = perf_keys env"
    and i: "df_index perf_sum = enlarge_index (df_index run_times) (map fst comparisons)"
       "df_index perf_avg = enlarge_index (df_index run_times) (map fst comparisons)"
       "df_index cu = enlarge_index (df_index run_times) (map fst comparisons)"
    and c: "df_columns cu =
         [''num_gt'', ''num_sorter'', ''num_well_detected'', ''num_redundant''] @
         (if exhaustive_gt then [''num_false_positive'', ''num_bad''] else [])"
    by blast
  have s: "set (map fst comparisons) \<subseteq> set (df_index run_times) \<longrightarrow>
           df_index perf_sum = df_index run_times \<and>
           df_index perf_avg = df_index run_times \<and>
           df_index cu = df_index run_times"
    using i by (simp add: enlarge_index_subset)
  have m: "(''num_false_positive'' \<in> set (df_columns cu) \<longleftrightarrow> exhaustive_gt)"
    "(''num_bad'' \<in> set (df_columns cu) \<longleftrightarrow> exhaustive_gt)"
    by (simp_all add: c)
  from r i c s m show "\<exists>rt comparisons run_times perf_sum perf_avg count_units.
        collect_run_times env fs sf = Inr rt \<and>
        aggregate_sorting_comparison env fs sf exhaustive_gt karg_thresh = Inr comparisons \<and>
        out = [(''run_times'', run_times), (''perf_pooled_with_sum'', perf_sum),
               (''perf_pooled_with_average'', perf_avg), (''count_units'', count_units)] \<and>
        df_index run_times = map (\<lambda>(r, s, t). (r, s)) rt \<and>
        df_index perf_sum = enlarge_index (df_index run_times) (map fst comparisons) \<and>
        df_index perf_avg = enlarge_index (df_index run_times) (map fst comparisons) \<and>
        df_index count_units = enlarge_index (df_index run_times) (map fst comparisons) \<and>
        (set (map fst comparisons) \<subseteq> set (df_index run_times) \<longrightarrow>
           df_index perf_sum = df_index run_times \<and>
           df_index perf_avg = df_index run_times \<and>
           df_index count_units = df_index run_times) \<and>
        df_columns run_times = [''run_time''] \<and>
        df_columns perf_sum = perf_keys env \<and>
        df_columns perf_avg = perf_keys env \<and>
        df_columns count_units =
          [''num_gt'', ''num_sorter'', ''num_well_detected'', ''num_redundant''] @
          (if exhaustive_gt then [''num_false_positive'', ''num_bad''] else []) \<and>
        (''num_false_positive'' \<in> set (df_columns count_units) \<longleftrightarrow> exhaustive_gt) \<and>
        (''num_bad'' \<in> set (df_columns count_units) \<longleftrightarrow> exhaustive_gt)"
    by blast
next
  show "(\<exists>out. aggregate_performances_table env fs sf exhaustive_gt karg_thresh = Inr out) \<longleftrightarrow>
      (\<exists>c. aggregate_sorting_comparison env fs sf exhaustive_gt karg_thresh = Inr c) \<and>
      (\<exists>rt. collect_run_times env fs sf = Inr rt)"
    by (rule table_succeeds)
qed

section \<open>What the study functions leave untouched\<close>

lemma kept_outside_refl: "kept_outside base fs fs"
  by (simp add: kept_outside_def)

lemma kept_outside_trans:
  "kept_outside base fs fs1 \<Longrightarrow> kept_outside base fs1 fs2 \<Longrightarrow> kept_outside base fs fs2"
  by (simp add: kept_outside_def)

lemma ancestors_kept:
  "ancestors_exist base fs \<Longrightarrow> kept_outside base fs fs' \<Longrightarrow> ancestors_exist base fs'"
  by (auto simp: ancestors_exist_def kept_outside_def strict_prefix_def)

lemma fold_write_other:
  "\<forall>(name, c)\<in>set files. out @ [name] \<noteq> p \<Longrightarrow>
     fold (\<lambda>(name, c) fs. fs(out @ [name] \<mapsto> File c)) files fs p = fs p"
  by (induction files arbitrary: fs) auto

lemma store_output_outside:
  assumes "ancestors_exist base fs" and "prefix base out"
  shows "kept_outside base fs (store_output out files fs)"
  unfolding kept_outside_def
proof (intro allI impI)
  fix p assume np: "\<not> prefix base p"
  have "out @ [name] \<noteq> p" for name
    using np assms(2) by (auto simp: prefix_def)
  then have "store_output out files fs p =
      (if prefix p out \<and> fs p = None then Some Dir else fs p)"
    unfolding store_output_def by (subst fold_write_other) auto
  moreover have "fs p \<noteq> None" if "prefix p out"
  proof -
    from that assms(2) have "prefix p base \<or> prefix base p" by (rule prefix_same_cases)
    with np have "strict_prefix p base" by (auto simp: strict_prefix_def)
    with assms(1) show ?thesis by (simp add: ancestors_exist_def)
  qed
  ultimately show "store_output out files fs p = fs p" by auto
qed

lemma run_sorters_on_outside:
  assumes "ancestors_exist base fs"
    and "run_sorters_on env base params opts rec_name recording sorters fs = (r, fs')"
  shows "kept_outside base fs fs'"
  using assms
proof (induction sorters arbitrary: fs)
  case Nil
  then show ?case by (simp add: kept_outside_refl)
next
  case (Cons sorter_name sorters)
  show ?case
  proof (cases "run_sorter env sorter_name recording params opts")
    case (Inl e)
    with Cons.prems show ?thesis by (simp add: kept_outside_refl)
  next
    case (Inr files)
    let ?fs1 = "store_output (base @ [rec_name, sorter_name]) files fs"
    have k: "kept_outside base fs ?fs1"
      using Cons.prems(1) by (rule store_output_outside) simp
    have a: "ancestors_exist base ?fs1"
      using Cons.prems(1) k by (rule ancestors_kept)
    from Cons.prems(2) Inr
    have "run_sorters_on env base params opts rec_name recording sorters ?fs1 = (r, fs')"
      by simp
    from Cons.IH[OF a this] k show ?thesis by (rule kept_outside_trans[rotated])
  qed
qed

lemma run_sorters_outside:
  assumes "ancestors_exist base fs"
    and "run_sorters env sorter_list recording_dict base params opts fs = (r, fs')"
  shows "kept_outside base fs fs'"
  using assms
proof (induction recording_dict arbitrary: fs)
  case Nil
  then show ?case by (simp add: kept_outside_refl)
next
  case (Cons x recording_dict)
  obtain rec_name recording where x: "x = (rec_name, recording)" by (cases x)
  obtain r1 fs1 where
    o: "run_sorters_on env base params opts rec_name recording sorter_list fs = (r1, fs1)"
    by (cases "run_sorters_on env base params opts rec_name recording sorter_list fs")
  have k: "kept_outside base fs fs1"
    using Cons.prems(1) o by (rule run_sorters_on_outside)
  show ?case
  proof (cases r1)
    case None
    with Cons.prems(2) o x
    have "run_sorters env sorter_list recording_dict base params opts fs1 = (r, fs')"
      by (simp add: and_then_def)
    from Cons.IH[OF ancestors_kept[OF Cons.prems(1) k] this] k
    show ?thesis by (rule kept_outside_trans[rotated])
  next
    case (Some e)
    with Cons.prems(2) o x have "fs' = fs1" by (simp add: and_then_def)
    with k show ?thesis by simp
  qed
qed

lemma run_study_sorters_outside:
  assumes "ancestors_exist (sf @ [''sorter_outputs'']) fs"
  shows "kept_outside (sf @ [''sorter_outputs'']) fs
           (snd (run_study_sorters env sf sorter_list params mode engine engine_kargs fs))"
proof (cases "get_recordings fs sf")
  case (Inl e)
  then show ?thesis by (simp add: run_study_sorters_def kept_outside_refl)
next
  case (Inr recording_dict)
  let ?opts = "\<lparr>run_mode = mode, run_engine = engine, run_engine_kargs = engine_kargs\<rparr>"
  obtain r fs' where
    o: "run_sorters env sorter_list recording_dict (sf @ [''sorter_outputs'']) params ?opts fs = (r, fs')"
    by (cases "run_sorters env sorter_list recording_dict (sf @ [''sorter_outputs'']) params ?opts fs")
  from run_sorters_outside[OF assms o] Inr o show ?thesis
    by (simp add: run_study_sorters_def)
qed

lemma after_call_outside:
  assumes "ancestors_exist (sf @ [''sorter_outputs'']) fs"
  shows "kept_outside (sf @ [''sorter_outputs'']) fs (after_call env sf call fs)"
proof (cases call)
  case (Run_study_sorters sorter_list params mode engine engine_kargs)
  then show ?thesis using run_study_sorters_outside[OF assms] by simp
next
  case Collect_run_times
  then show ?thesis by (simp add: kept_outside_refl split: sum.splits)
next
  case (Aggregate_sorting_comparison ex kt)
  then show ?thesis by (simp add: kept_outside_refl split: sum.splits)
next
  case (Aggregate_performances_table ex kt)
  then show ?thesis by (simp add: kept_outside_refl split: sum.splits)
qed

lemma after_calls_outside:
  assumes "ancestors_exist (sf @ [''sorter_outputs'']) fs"
  shows "kept_outside (sf @ [''sorter_outputs'']) fs (after_calls env sf calls fs)"
  using assms
proof (induction calls arbitrary: fs)
  case Nil
  then show ?case by (simp add: after_calls_def kept_outside_refl)
next
  case (Cons call calls)
  have k: "kept_outside (sf @ [''sorter_outputs'']) fs (after_call env sf call fs)"
    using Cons.prems by (rule after_call_outside)
  from Cons.IH[OF ancestors_kept[OF Cons.prems k]] k
  show ?case
    unfolding after_calls_def fold_Cons comp_def by (rule kept_outside_trans[rotated])
qed

lemma grows_refl: "grows fs fs"
  by (simp add: grows_def)

lemma grows_trans: "grows fs fs1 \<Longrightarrow> grows fs1 fs2 \<Longrightarrow> grows fs fs2"
  by (simp add: grows_def)

lemma makedirs_grows: "makedirs p fs = (r, fs') \<Longrightarrow> grows fs fs'"
  by (auto simp: makedirs_def grows_def split: if_splits)

lemma write_file_grows: "write_file p c fs = (r, fs') \<Longrightarrow> grows fs fs'"
  by (auto simp: write_file_def grows_def split: if_splits option.splits node.splits)

lemma and_then_grows:
  assumes "and_then x f = (r, fs')" and "x = (r1, fs1)" and "grows fs fs1"
    and "\<And>r2 fs2. f fs1 = (r2, fs2) \<Longrightarrow> grows fs1 fs2"
  shows "grows fs fs'"
proof (cases r1)
  case None
  with assms(1,2) have "f fs1 = (r, fs')" by (simp add: and_then_def)
  from assms(4)[OF this] assms(3) show ?thesis by (rule grows_trans[rotated])
next
  case (Some e)
  with assms(1,2) have "fs' = fs1" by (simp add: and_then_def)
  with assms(3) show ?thesis by simp
qed

lemma write_recording_grows:
  assumes "write_recording sf n rec g fs = (r, fs')"
  shows "grows fs fs'"
proof (cases "rec_num_channels rec = 0")
  case True
  with assms show ?thesis by (simp add: write_recording_def grows_refl)
next
  case False
  let ?raw = "sf @ [''raw_files'', n @ ''.raw'']"
  let ?prb = "sf @ [''raw_files'', n @ ''.prb'']"
  let ?json = "sf @ [''raw_files'', n @ ''.json'']"
  let ?npz = "sf @ [''ground_truth'', n @ ''.npz'']"
  let ?info = "\<lparr>sample_rate = rec_sampling_frequency rec, num_chan = rec_num_channels rec,
                 dtype = ''float32'', frames_first = True\<rparr>"
  obtain r1 fs1 where w1: "write_file ?raw (BinaryDat (rec_traces rec)) fs = (r1, fs1)"
    by (cases "write_file ?raw (BinaryDat (rec_traces rec)) fs")
  have e: "write_recording sf n rec g fs =
      and_then (write_file ?raw (BinaryDat (rec_traces rec)) fs) (\<lambda>fs.
      and_then (write_file ?prb (ProbeFile (rec_probe rec)) fs) (\<lambda>fs.
      and_then (write_file ?json (Json ?info) fs) (\<lambda>fs.
      write_file ?npz (Npz g) fs)))"
    using False
    by (simp add: write_recording_def Let_def write_binary_dat_format_def save_probe_file_def
        write_sorting_def[abs_def])
  have 3: "grows f f'"
    if "and_then (write_file ?json (Json ?info) f) (\<lambda>fs. write_file ?npz (Npz g) fs) = (x, f')"
    for f f' x
  proof -
    obtain r3 fs3 where w3: "write_file ?json (Json ?info) f = (r3, fs3)"
      by (cases "write_file ?json (Json ?info) f")
    show ?thesis
      by (rule and_then_grows[OF that w3 write_file_grows[OF w3]]) (rule write_file_grows)
  qed
  have 2: "grows f f'"
    if "and_then (write_file ?prb (ProbeFile (rec_probe rec)) f) (\<lambda>fs.
      and_then (write_file ?json (Json ?info) fs) (\<lambda>fs.
      write_file ?npz (Npz g) fs)) = (x, f')"
    for f f' x
  proof -
    obtain r2 fs2 where w2: "write_file ?prb (ProbeFile (rec_probe rec)) f = (r2, fs2)"
      by (cases "write_file ?prb (ProbeFile (rec_probe rec)) f")
    show ?thesis
      by (rule and_then_grows[OF that w2 write_file_grows[OF w2]]) (rule 3)
  qed
  show ?thesis
    by (rule and_then_grows[OF assms[unfolded e] w1 write_file_grows[OF w1]]) (rule 2)
qed

lemma write_recordings_grows:
  "write_recordings sf xs fs = (r, fs') \<Longrightarrow> grows fs fs'"
proof (induction xs arbitrary: fs r fs')
  case Nil
  then show ?case by (simp add: grows_refl)
next
  case (Cons x xs)
  obtain n rec g where x: "x = (n, rec, g)" by (cases x)
  obtain r1 fs1 where w: "write_recording sf n rec g fs = (r1, fs1)"
    by (cases "write_recording sf n rec g fs")
  from Cons.prems have a: "and_then (write_recording sf n rec g fs) (write_recordings sf xs) = (r, fs')"
    by (simp add: x)
  show ?case
    by (rule and_then_grows[OF a w write_recording_grows[OF w]]) (rule Cons.IH)
qed

lemma setup_ancestors:
  assumes "setup_comparison_study sf gt_dict fs = (None, fs')"
  shows "ancestors_exist (sf @ [''sorter_outputs'']) fs'"
proof -
  from assms obtain fs1 fs2 fs3 fs4 where
    m1: "makedirs sf fs = (None, fs1)"
    and m2: "makedirs (sf @ [''raw_files'']) fs1 = (None, fs2)"
    and m3: "makedirs (sf @ [''ground_truth'']) fs2 = (None, fs3)"
    and w: "write_recordings sf gt_dict fs3 = (None, fs4)"
    and n: "write_file (sf @ [''names.txt'']) (Text (names_text gt_dict)) fs4 = (None, fs')"
    by (auto simp: setup_comparison_study_def and_then_None split: if_splits)
  have g: "grows fs1 fs'"
    using makedirs_grows[OF m2] makedirs_grows[OF m3] write_recordings_grows[OF w]
      write_file_grows[OF n] by (blast intro: grows_trans)
  have "fs1 q \<noteq> None" if "prefix q sf" for q
    using m1 that by (auto simp: makedirs_def split: if_splits)
  with g have "fs' q \<noteq> None" if "prefix q sf" for q
    using that by (simp add: grows_def)
  then show ?thesis
    by (auto simp: ancestors_exist_def strict_prefix_def prefix_snoc)
qed

text \<open>
  Claim C5. After \<open>setup_comparison_study\<close> has created a study, any sequence of
  calls of \<open>run_study_sorters\<close>, \<open>collect_run_times\<close>,
  \<open>aggregate_sorting_comparison\<close> and \<open>aggregate_performances_table\<close> leaves every
  path outside \<open>sorter_outputs\<close> as it was: in particular everything under
  \<open>raw_files\<close> and \<open>ground_truth\<close>, and \<open>names.txt\<close>.
\<close>

theorem study_is_kept:
  assumes "setup_comparison_study sf gt_dict fs0 = (None, fs)"
  shows "(\<not> prefix (sf @ [''sorter_outputs'']) p \<longrightarrow> after_calls env sf calls fs p = fs p) \<and>
         (prefix (sf @ [''raw_files'']) p \<or> prefix (sf @ [''ground_truth'']) p \<or>
            p = sf @ [''names.txt''] \<longrightarrow> after_calls env sf calls fs p = fs p)"
proof -
  have k: "kept_outside (sf @ [''sorter_outputs'']) fs (after_calls env sf calls fs)"
    using setup_ancestors[OF assms] by (rule after_calls_outside)
  have "\<not> prefix (sf @ [''sorter_outputs'']) p"
    if "prefix (sf @ [''raw_files'']) p \<or> prefix (sf @ [''ground_truth'']) p \<or>
            p = sf @ [''names.txt'']"
    using that by (auto simp: prefix_def)
  with k show ?thesis by (auto simp: kept_outside_def)
qed

section \<open>Instances on the small study, and the threshold functions\<close>

lemma wf_fs_empty: "wf_fs Map.empty"
  by (simp add: wf_fs_def)

lemma no_file_empty: "\<forall>q. strict_prefix q sf \<longrightarrow> \<not> is_file Map.empty q"
  by (simp add: is_file_def)

lemma example_channels: "\<forall>(n, r, g)\<in>set example_gt_dict. 0 < rec_num_channels r"
  by (simp add: example_gt_dict_def example_recording_def)

lemma example_cr_channels: "\<forall>(n, r, g)\<in>set example_cr_gt_dict. 0 < rec_num_channels r"
  by (simp add: example_cr_gt_dict_def example_recording_def)

theorem rec_names_after_setup_witness:
  "get_rec_names (snd (setup_comparison_study [''study''] example_gt_dict Map.empty)) [''study'']
     = Inr [''rec1'', ''rec2'']"
proof -
  have ne: "\<not> path_exists Map.empty [''study'']" by (simp add: path_exists_def)
  from setup_succeeds[OF wf_fs_empty example_channels ne no_file_empty]
  obtain fs' where s: "setup_comparison_study [''study''] example_gt_dict Map.empty = (None, fs')"
    by blast
  have h1: "example_gt_dict \<noteq> []" by (simp add: example_gt_dict_def)
  have h2: "distinct (map fst example_gt_dict)" by (simp add: example_gt_dict_def)
  have h3: "\<forall>n\<in>set (map fst example_gt_dict). NL \<notin> set n \<and> CR \<notin> set n"
    by (simp add: example_gt_dict_def)
  from rec_names_after_setup[OF h1 h2 h3 ne s]
  have "get_rec_names fs' [''study''] = Inr [''rec1'', ''rec2'']"
    by (simp add: example_gt_dict_def)
  then show ?thesis by (simp add: s)
qed

text \<open>
  Claim C3 as stated fails for a recording name with a carriage return: \<open>names.txt\<close>
  is read in universal-newlines mode, so the name \<open>a\rb\<close>, which holds no newline,
  comes back as the two names \<open>a\<close> and \<open>b\<close>.
\<close>

theorem rec_names_carriage_return:
  "example_cr_gt_dict \<noteq> [] \<and>
   NL \<notin> set (concat (map fst example_cr_gt_dict)) \<and>
   \<not> path_exists Map.empty [''study''] \<and>
   fst (setup_comparison_study [''study''] example_cr_gt_dict Map.empty) = None \<and>
   map fst example_cr_gt_dict = [''a'' @ [CR] @ ''b''] \<and>
   get_rec_names (snd (setup_comparison_study [''study''] example_cr_gt_dict Map.empty))
     [''study''] = Inr [''a'', ''b'']"
proof -
  have ne: "\<not> path_exists Map.empty [''study'']" by (simp add: path_exists_def)
  from setup_succeeds[OF wf_fs_empty example_cr_channels ne no_file_empty]
  obtain fs' where s: "setup_comparison_study [''study''] example_cr_gt_dict Map.empty = (None, fs')"
    by blast
  from get_rec_names_after_setup[OF s]
  have "get_rec_names fs' [''study''] = Inr [''a'', ''b'']"
    by (simp add: names_text_def example_cr_gt_dict_def)
  with s ne show ?thesis by (simp add: example_cr_gt_dict_def)
qed



text \<open>
  A study folder below a regular file does not exist, and cannot be made:
  \<open>os.makedirs\<close> raises \<open>NotADirectoryError\<close> and nothing is written.
\<close>

theorem setup_below_a_file:
  "\<not> path_exists example_file_fs [''data'', ''study''] \<and>
   setup_comparison_study [''data'', ''study''] example_gt_dict example_file_fs
     = (Some NotADirectoryError, example_file_fs)"
  by (simp add: setup_comparison_study_def path_exists_def makedirs_def and_then_def
      example_file_fs_def is_file_def)

text \<open>
  Claim C10, as amended. \<open>get_rec_names\<close> returns the text of \<open>names.txt\<close> as text
  mode reads it (\<open>'\r\n'\<close> and \<open>'\r'\<close> turned into \<open>'\n'\<close>), without its last
  character, split at newlines; where the file holds no carriage return that is the
  content of the file itself. For a study that \<open>setup_comparison_study\<close> has created
  from an empty \<open>gt_dict\<close> the result is the list holding the empty string.
\<close>

theorem get_rec_names_text:
  "(fs (sf @ [''names.txt'']) = Some (File (Text s)) \<longrightarrow>
      get_rec_names fs sf = Inr (str_split NL (butlast (universal_newlines s)))) \<and>
   (fs (sf @ [''names.txt'']) = Some (File (Text s)) \<and> CR \<notin> set s \<longrightarrow>
      get_rec_names fs sf = Inr (str_split NL (butlast s))) \<and>
   (setup_comparison_study sf [] fs0 = (None, fs) \<longrightarrow> get_rec_names fs sf = Inr [[]])"
proof (intro conjI impI)
  assume "fs (sf @ [''names.txt'']) = Some (File (Text s))"
  then show "get_rec_names fs sf = Inr (str_split NL (butlast (universal_newlines s)))"
    by (simp add: get_rec_names_def read_text_def)
next
  assume "fs (sf @ [''names.txt'']) = Some (File (Text s)) \<and> CR \<notin> set s"
  then show "get_rec_names fs sf = Inr (str_split NL (butlast s))"
    by (simp add: get_rec_names_def read_text_def universal_newlines_id)
next
  assume "setup_comparison_study sf [] fs0 = (None, fs)"
  from get_rec_names_after_setup[OF this] show "get_rec_names fs sf = Inr [[]]"
    by (simp add: names_text_def)
qed

theorem get_rec_names_text_witness:
  "get_rec_names (Map.empty([''study'', ''names.txt''] \<mapsto> File (Text (''a'' @ [NL] @ ''b'' @ [NL]))))
     [''study''] = Inr [''a'', ''b''] \<and>
   fst (setup_comparison_study [''study''] [] Map.empty) = None \<and>
   get_rec_names (snd (setup_comparison_study [''study''] [] Map.empty)) [''study''] = Inr [[]]"
proof -
  have ne: "\<not> path_exists Map.empty [''study'']" by (simp add: path_exists_def)
  have 1: "(Map.empty([''study'', ''names.txt''] \<mapsto> File (Text (''a'' @ [NL] @ ''b'' @ [NL]))))
     ([''study''] @ [''names.txt'']) = Some (File (Text (''a'' @ [NL] @ ''b'' @ [NL])))" by simp
  have 2: "CR \<notin> set (''a'' @ [NL] @ ''b'' @ [NL])" by simp
  from get_rec_names_text[of "Map.empty([''study'', ''names.txt''] \<mapsto> File (Text (''a'' @ [NL] @ ''b'' @ [NL])))"
      "[''study'']" "''a'' @ [NL] @ ''b'' @ [NL]"] 1 2
  have a: "get_rec_names (Map.empty([''study'', ''names.txt''] \<mapsto> File (Text (''a'' @ [NL] @ ''b'' @ [NL]))))
     [''study''] = Inr [''a'', ''b'']" by simp
  have "\<forall>(n, r, g)\<in>set []. 0 < rec_num_channels r" by simp
  from setup_succeeds[OF wf_fs_empty this ne no_file_empty]
  obtain fs' where s: "setup_comparison_study [''study''] [] Map.empty = (None, fs')" by blast
  from get_rec_names_text[of fs' "[''study'']" _ Map.empty] s
  have b: "get_rec_names fs' [''study''] = Inr [[]]" by blast
  from a b show ?thesis by (simp add: s)
qed

text \<open>
  Claim C10 as stated fails on a \<open>names.txt\<close> with Windows line endings: the
  content without its last character, split at newlines, is \<open>['x\r', 'y\r']\<close>, and
  \<open>get_rec_names\<close> returns \<open>['x', 'y']\<close>.
\<close>

theorem get_rec_names_crlf:
  "example_crlf_fs [''study'', ''names.txt''] =
     Some (File (Text (''x'' @ [CR, NL] @ ''y'' @ [CR, NL]))) \<and>
   get_rec_names example_crlf_fs [''study''] = Inr [''x'', ''y''] \<and>
   str_split NL (butlast (''x'' @ [CR, NL] @ ''y'' @ [CR, NL])) = [''x'' @ [CR], ''y'' @ [CR]]"
  by (simp add: example_crlf_fs_def get_rec_names_def read_text_def)

text \<open>
  Claim C7. The result of \<open>aggregate_sorting_comparison\<close> is the same for any two
  choices of \<open>exhaustive_gt\<close> and \<open>karg_thresh\<close>.
\<close>

theorem aggregate_sorting_comparison_ignores_flags:
  "aggregate_sorting_comparison env fs study_folder exhaustive_gt1 karg_thresh1 =
   aggregate_sorting_comparison env fs study_folder exhaustive_gt2 karg_thresh2"
  by (simp add: aggregate_sorting_comparison_def)

text \<open>
  Claim C9. \<open>threshold_num_spikes\<close> returns the same result for any two sampling
  frequencies that are not \<open>None\<close>.
\<close>

theorem threshold_num_spikes_ignores_frequency:
  "threshold_num_spikes v sorting threshold threshold_sign epoch (Some sf1)
     metric_scope_params save_as_property =
   threshold_num_spikes v sorting threshold threshold_sign epoch (Some sf2)
     metric_scope_params save_as_property"
  by (simp add: threshold_num_spikes_def)

lemma scoped_md:
  "(let ms_dict = update_param_dicts v ms;
        ms_dict = (if unit_ids ms_dict = None
                   then ms_dict\<lparr>unit_ids := Some (get_unit_ids sorting)\<rparr> else ms_dict)
    in f \<lparr>md_sorting = sorting, md_unit_ids = unit_ids ms_dict,
          md_epoch_tuples = epoch_tuples ms_dict,
          md_epoch_names = epoch_names ms_dict\<rparr>) = f (scoped_metric_data v sorting ms)"
  by (cases "unit_ids (update_param_dicts v ms)") (simp_all add: scoped_metric_data_def Let_def)

text \<open>
  Claim C8. Each of the four threshold functions raises \<open>ValueError\<close> if its
  \<open>sampling_frequency\<close> is \<open>None\<close> and the sorting has none either, and raises
  nothing otherwise: it then returns what \<open>threshold_metric\<close> of its metric gives for
  the threshold, the sign and the epoch (and, for the ISI violations, the two ISI
  parameters), on the metric data of the sorting.
\<close>

theorem threshold_functions_raise:
  "threshold_num_spikes v sorting threshold threshold_sign epoch sampling_frequency ms save =
     (if sampling_frequency = None \<and> sort_sampling_frequency sorting = None
      then Inl ValueError
      else Inr (num_spikes_threshold_metric v (scoped_metric_data v sorting ms)
                  threshold threshold_sign epoch save)) \<and>
   threshold_firing_rates v sorting threshold threshold_sign epoch sampling_frequency ms save =
     (if sampling_frequency = None \<and> sort_sampling_frequency sorting = None
      then Inl ValueError
      else Inr (firing_rate_threshold_metric v (scoped_metric_data v sorting ms)
                  threshold threshold_sign epoch save)) \<and>
   threshold_presence_ratios v sorting threshold threshold_sign epoch sampling_frequency ms save =
     (if sampling_frequency = None \<and> sort_sampling_frequency sorting = None
      then Inl ValueError
      else Inr (presence_ratio_threshold_metric v (scoped_metric_data v sorting ms)
                  threshold threshold_sign epoch save)) \<and>
   threshold_isi_violations v sorting threshold threshold_sign epoch isi_threshold min_isi
       sampling_frequency ms save =
     (if sampling_frequency = None \<and> sort_sampling_frequency sorting = None
      then Inl ValueError
      else Inr (isi_violation_threshold_metric v (scoped_metric_data v sorting ms)
                  threshold threshold_sign epoch isi_threshold min_isi save)) \<and>
   ((\<exists>e. threshold_num_spikes v sorting threshold threshold_sign epoch sampling_frequency
            ms save = Inl e) \<longleftrightarrow>
      sampling_frequency = None \<and> sort_sampling_frequency sorting = None) \<and>
   ((\<exists>e. threshold_firing_rates v sorting threshold threshold_sign epoch sampling_frequency
            ms save = Inl e) \<longleftrightarrow>
      sampling_frequency = None \<and> sort_sampling_frequency sorting = None) \<and>
   ((\<exists>e. threshold_presence_ratios v sorting threshold threshold_sign epoch sampling_frequency
            ms save = Inl e) \<longleftrightarrow>
      sampling_frequency = None \<and> sort_sampling_frequency sorting = None) \<and>
   ((\<exists>e. threshold_isi_violations v sorting threshold threshold_sign epoch isi_threshold
            min_isi sampling_frequency ms save = Inl e) \<longleftrightarrow>
      sampling_frequency = None \<and> sort_sampling_frequency sorting = None)"
proof -
  have 1: "threshold_num_spikes v sorting threshold threshold_sign epoch sampling_frequency ms save =
     (if sampling_frequency = None \<and> sort_sampling_frequency sorting = None
      then Inl ValueError
      else Inr (num_spikes_threshold_metric v (scoped_metric_data v sorting ms)
                  threshold threshold_sign epoch save))"
    unfolding threshold_num_spikes_def
    using scoped_md[of v ms sorting "\<lambda>md. Inr (num_spikes_threshold_metric v md threshold threshold_sign epoch save)"]
    by (simp add: Let_def)
  have 2: "threshold_firing_rates v sorting threshold threshold_sign epoch sampling_frequency ms save =
     (if sampling_frequency = None \<and> sort_sampling_frequency sorting = None
      then Inl ValueError
      else Inr (firing_rate_threshold_metric v (scoped_metric_data v sorting ms)
                  threshold threshold_sign epoch save))"
    unfolding threshold_firing_rates_def
    using scoped_md[of v ms sorting "\<lambda>md. Inr (firing_rate_threshold_metric v md threshold threshold_sign epoch save)"]
    by (simp add: Let_def)
  have 3: "threshold_presence_ratios v sorting threshold threshold_sign epoch sampling_frequency ms save =
     (if sampling_frequency = None \<and> sort_sampling_frequency sorting = None
      then Inl ValueError
      else Inr (presence_ratio_threshold_metric v (scoped_metric_data v sorting ms)
                  threshold threshold_sign epoch save))"
    unfolding threshold_presence_ratios_def
    using scoped_md[of v ms sorting "\<lambda>md. Inr (presence_ratio_threshold_metric v md threshold threshold_sign epoch save)"]
    by (simp add: Let_def)
  have 4: "threshold_isi_violations v sorting threshold threshold_sign epoch isi_threshold min_isi
       sampling_frequency ms save =
     (if sampling_frequency = None \<and> sort_sampling_frequency sorting = None
      then Inl ValueError
      else Inr (isi_violation_threshold_metric v (scoped_metric_data v sorting ms)
                  threshold threshold_sign epoch isi_threshold min_isi save))"
    unfolding threshold_isi_violations_def
    using scoped_md[of v ms sorting "\<lambda>md. Inr (isi_violation_threshold_metric v md threshold threshold_sign epoch isi_threshold min_isi save)"]
    by (simp add: Let_def)
  show ?thesis
    unfolding 1 2 3 4 by simp
qed

theorem threshold_functions_raise_witness:
  "threshold_num_spikes example_validation example_sorting 2 ''less'' (Some 0) None
     \<lparr>unit_ids = None, epoch_tuples = None, epoch_names = None\<rparr> True = Inr example_sorting \<and>
   threshold_isi_violations example_validation
     (example_sorting\<lparr>sort_sampling_frequency := None\<rparr>) 2 ''less'' (Some 0) 0.0015 0.000166 None
     \<lparr>unit_ids = None, epoch_tuples = None, epoch_names = None\<rparr> True = Inl ValueError"
  using threshold_functions_raise[of example_validation example_sorting 2 "''less''" "Some 0" None
      "\<lparr>unit_ids = None, epoch_tuples = None, epoch_names = None\<rparr>" True "0.0015" "0.000166"]
    threshold_functions_raise[of example_validation "example_sorting\<lparr>sort_sampling_frequency := None\<rparr>"
      2 "''less''" "Some 0" None
      "\<lparr>unit_ids = None, epoch_tuples = None, epoch_names = None\<rparr>" True "0.0015" "0.000166"]
  by (simp add: example_validation_def example_sorting_def scoped_metric_data_def)

theorem collect_run_times_logged_witness:
  "collect_run_times example_env example_log_fs [''study''] = Inr [(''rec1'', ''sorterA'', 12.5)]"
proof -
  have l: "loop_over_folders example_env example_log_fs ([''study''] @ [''sorter_outputs''])
      = (example_outputs, None)"
    by (simp add: example_env_def)
  have f: "filter (has_run_log example_log_fs) example_outputs =
      [(''rec1'', ''sorterA'', [''study'', ''sorter_outputs'', ''rec1'', ''sorterA''])]"
    by (simp add: example_outputs_def has_run_log_def path_exists_def example_log_fs_def)
  have r: "read_run_time example_env example_log_fs
      [''study'', ''sorter_outputs'', ''rec1'', ''sorterA''] = Inr 12.5"
    by (simp add: read_run_time_def read_text_def example_log_fs_def example_env_def
        decimal_float_def str_strip_def is_space_def)
  show ?thesis
    using collect_run_times_logged[OF l, of "[(''rec1'', ''sorterA'', 12.5)]"] r
    by (simp add: f run_time_of_def)
qed

text \<open>
  Claim C6 as stated fails on a log line that does not start with \<open>run_time:\<close>:
  for the line \<open>' run_time: 3.5'\<close> the code removes the tag and returns 3.5, where
  removing a prefix would change nothing and leave no number to parse.
\<close>

theorem collect_run_times_indented_log:
  "collect_run_times example_env example_indented_log_fs [''study'']
     = Inr [(''rec1'', ''sorterA'', 3.5)] \<and>
   read_text example_indented_log_fs
     [''study'', ''sorter_outputs'', ''rec1'', ''sorterA'', ''run_log.txt'']
     = Inr ('' run_time: 3.5'' @ [NL]) \<and>
   remove_prefix ''run_time:'' (readline ('' run_time: 3.5'' @ [NL])) = '' run_time: 3.5'' @ [NL] \<and>
   py_float example_env (remove_prefix ''run_time:'' (readline ('' run_time: 3.5'' @ [NL]))) = None"
  by (simp add: collect_run_times_def example_env_def example_outputs_def path_exists_def
      example_indented_log_fs_def read_run_time_def read_text_def remove_prefix_def
      decimal_float_def str_strip_def is_space_def)

subsection \<open>Comparisons, tables and the kept study, on the small study\<close>


lemma example_rec_names: "get_rec_names example_study_fs [''study''] = Inr [''rec1'']"
  by (simp add: get_rec_names_def read_text_def example_study_fs_def)

lemma example_ground_truth:
  "NpzSortingExtractor example_study_fs ([''study''] @ [''ground_truth'', ''rec1'' @ ''.npz''])
     = Inr example_sorting"
  by (simp add: NpzSortingExtractor_def example_study_fs_def)

lemma example_comparisons:
  "aggregate_sorting_comparison example_env example_study_fs [''study''] ex kt =
     Inr [((''rec1'', ''sorterA''),
           compare_sorter_to_ground_truth example_env example_sorting example_sorting)]"
  using example_ground_truth
  by (simp add: aggregate_sorting_comparison_def get_ground_truths_def example_rec_names
      example_env_def dict_get_def)

lemma example_run_times:
  "collect_run_times example_env example_study_fs [''study''] = Inr [(''rec1'', ''sorterA'', 12.5)]"
  by (simp add: collect_run_times_def example_env_def example_outputs_def path_exists_def
      example_study_fs_def read_run_time_def read_text_def
      decimal_float_def str_strip_def is_space_def)


theorem aggregate_performances_table_frames_witness:
  "\<exists>run_times perf_sum perf_avg count_units.
     aggregate_performances_table example_env example_study_fs [''study''] True [] =
       Inr [(''run_times'', run_times), (''perf_pooled_with_sum'', perf_sum),
            (''perf_pooled_with_average'', perf_avg), (''count_units'', count_units)] \<and>
     df_index run_times = [(''rec1'', ''sorterA'')] \<and>
     df_index perf_sum = [(''rec1'', ''sorterA'')] \<and>
     df_index perf_avg = [(''rec1'', ''sorterA'')] \<and>
     df_index count_units = [(''rec1'', ''sorterA'')] \<and>
     df_columns count_units =
       [''num_gt'', ''num_sorter'', ''num_well_detected'', ''num_redundant'',
        ''num_false_positive'', ''num_bad'']"
proof -
  note t = aggregate_performances_table_frames[of example_env example_study_fs "[''study'']" True "[]"]
  from t example_comparisons example_run_times obtain out where
    o: "aggregate_performances_table example_env example_study_fs [''study''] True [] = Inr out"
    by blast
  from t[of out] o obtain rt comparisons run_times perf_sum perf_avg count_units where
    r: "collect_run_times example_env example_study_fs [''study''] = Inr rt"
       "aggregate_sorting_comparison example_env example_study_fs [''study''] True [] = Inr comparisons"
       "out = [(''run_times'', run_times), (''perf_pooled_with_sum'', perf_sum),
               (''perf_pooled_with_average'', perf_avg), (''count_units'', count_units)]"
       "df_index run_times = map (\<lambda>(r, s, t). (r, s)) rt"
       "set (map fst comparisons) \<subseteq> set (df_index run_times) \<longrightarrow>
           df_index perf_sum = df_index run_times \<and>
           df_index perf_avg = df_index run_times \<and>
           df_index count_units = df_index run_times"
       "df_columns count_units =
          [''num_gt'', ''num_sorter'', ''num_well_detected'', ''num_redundant''] @
          (if True then [''num_false_positive'', ''num_bad''] else [])"
    by blast
  from r(1) example_run_times have rt: "rt = [(''rec1'', ''sorterA'', 12.5)]" by simp
  from r(2) example_comparisons[of True "[]"]
  have c: "map fst comparisons = [(''rec1'', ''sorterA'')]" by auto
  from r(4) rt have i: "df_index run_times = [(''rec1'', ''sorterA'')]" by simp
  with r(5) c have "df_index perf_sum = [(''rec1'', ''sorterA'')]"
    "df_index perf_avg = [(''rec1'', ''sorterA'')]"
    "df_index count_units = [(''rec1'', ''sorterA'')]" by simp_all
  with o r(3) r(6) i show ?thesis by simp
qed

theorem study_is_kept_witness:
  "after_calls example_env [''study''] example_calls
     (snd (setup_comparison_study [''study''] example_gt_dict Map.empty))
     [''study'', ''names.txt''] = Some (File (Text (''rec1'' @ [NL] @ ''rec2'' @ [NL]))) \<and>
   after_calls example_env [''study''] example_calls
     (snd (setup_comparison_study [''study''] example_gt_dict Map.empty))
     [''elsewhere''] = None"
proof -
  have ne: "\<not> path_exists Map.empty [''study'']" by (simp add: path_exists_def)
  from setup_succeeds[OF wf_fs_empty example_channels ne no_file_empty]
  obtain fs3 where s: "setup_comparison_study [''study''] example_gt_dict Map.empty =
      (None, (store_all [''study''] example_gt_dict fs3)([''study'', ''names.txt''] \<mapsto>
         File (Text (names_text example_gt_dict))))"
    and inv: "study_inv [''study''] fs3" by auto
  let ?fs = "(store_all [''study''] example_gt_dict fs3)([''study'', ''names.txt''] \<mapsto>
         File (Text (names_text example_gt_dict)))"
  have s': "setup_comparison_study [''study''] example_gt_dict Map.empty = (None, ?fs)"
    using s by simp
  have 1: "after_calls example_env [''study''] example_calls ?fs [''study'', ''names.txt'']
      = ?fs [''study'', ''names.txt'']"
    using study_is_kept[OF s', of "[''study'', ''names.txt'']" example_env example_calls]
    by simp
  have 2: "after_calls example_env [''study''] example_calls ?fs [''elsewhere'']
      = ?fs [''elsewhere'']"
    using study_is_kept[OF s', of "[''elsewhere'']" example_env example_calls]
    by simp
  have e: "snd (setup_comparison_study [''study''] example_gt_dict Map.empty) [''elsewhere''] = None"
    by (simp add: setup_comparison_study_def path_exists_def makedirs_def and_then_def
      write_recording_def example_gt_dict_def example_recording_def write_file_def
      write_binary_dat_format_def save_probe_file_def write_sorting_def is_file_def)
  have n: "?fs [''study'', ''names.txt''] = Some (File (Text (''rec1'' @ [NL] @ ''rec2'' @ [NL])))"
    by (simp add: names_text_def example_gt_dict_def)
  have e': "?fs [''elsewhere''] = None"
    using e unfolding s' by simp
  show ?thesis
    unfolding s' snd_conv using 1 2 n e' by simp
qed

end
